theory Spec2Isabelle
  imports Complex_Main "HOL-Library.Log_Nat"
begin

section \<open>JavaScript numbers\<close>

text \<open>
  A JavaScript number is an IEEE 754 binary64 value: a finite one, held here as the real it
  denotes, an infinity or NaN. The two zeros are one value: subtraction, multiplication,
  \<open>Math.abs\<close>, \<open><\<close> and the conversion to a string in a template literal,
  which are all the program does with numbers, do not tell them apart.
\<close>

datatype number = Finite real | PosInf | NegInf | NaN

text \<open>\<open>exponent r\<close> is the integer \<open>e\<close> with
  \<open>2 powi e \<le> \<bar>r\<bar> < 2 powi (e + 1)\<close>, for \<open>r \<noteq> 0\<close>, computed on
  integers.\<close>

definition exponent :: "real \<Rightarrow> int" where
  "exponent r =
     (if 1 \<le> \<bar>r\<bar> then bitlen \<lfloor>\<bar>r\<bar>\<rfloor> - 1 else - bitlen (\<lceil>1 / \<bar>r\<bar>\<rceil> - 1))"

text \<open>The nearest integer, a tie going to the even one.\<close>

definition roundEven :: "real \<Rightarrow> int" where
  "roundEven x =
     (let n = \<lfloor>x\<rfloor>; d = x - of_int n
      in if d < 1 / 2 then n else if 1 / 2 < d then n + 1 else if even n then n else n + 1)"

text \<open>
  \<open>quantum r\<close> is the spacing of binary64 values around \<open>r\<close>: 53 significant
  bits, and from \<open>2 powi (- 1022)\<close> downwards the fixed spacing of the subnormal
  range. \<open>round64\<close> rounds to the nearest multiple of it (round to nearest, ties
  to even, exponent unbounded above); \<open>toDouble\<close> is the rounding of IEEE 754:
  what reaches \<open>2 powi 1024\<close> overflows to an infinity.
\<close>

definition quantum :: "real \<Rightarrow> real" where
  "quantum r = 2 powi (max (exponent r) (- 1022) - 52)"

definition round64 :: "real \<Rightarrow> real" where
  "round64 r = (if r = 0 then 0 else of_int (roundEven (r / quantum r)) * quantum r)"

definition toDouble :: "real \<Rightarrow> number" where
  "toDouble r =
     (let v = round64 r
      in if 2 powi 1024 \<le> \<bar>v\<bar> then (if 0 < r then PosInf else NegInf) else Finite v)"

text \<open>The operations of the program: \<open>a - b\<close>, \<open>a * b\<close>,
  \<open>Math.abs(a)\<close> and \<open>a < b\<close>. On finite operands the arithmetic ones
  round the exact result.\<close>

fun numSub :: "number \<Rightarrow> number \<Rightarrow> number" where
  "numSub (Finite a) (Finite b) = toDouble (a - b)"
| "numSub NaN y = NaN"
| "numSub x NaN = NaN"
| "numSub PosInf PosInf = NaN"
| "numSub NegInf NegInf = NaN"
| "numSub PosInf y = PosInf"
| "numSub NegInf y = NegInf"
| "numSub (Finite a) PosInf = NegInf"
| "numSub (Finite a) NegInf = PosInf"

fun numMul :: "number \<Rightarrow> number \<Rightarrow> number" where
  "numMul (Finite a) (Finite b) = toDouble (a * b)"
| "numMul NaN y = NaN"
| "numMul x NaN = NaN"
| "numMul (Finite a) PosInf = (if a = 0 then NaN else if 0 < a then PosInf else NegInf)"
| "numMul (Finite a) NegInf = (if a = 0 then NaN else if 0 < a then NegInf else PosInf)"
| "numMul PosInf (Finite b) = (if b = 0 then NaN else if 0 < b then PosInf else NegInf)"
| "numMul NegInf (Finite b) = (if b = 0 then NaN else if 0 < b then NegInf else PosInf)"
| "numMul PosInf PosInf = PosInf"
| "numMul PosInf NegInf = NegInf"
| "numMul NegInf PosInf = NegInf"
| "numMul NegInf NegInf = PosInf"

fun mathAbs :: "number \<Rightarrow> number" where
  "mathAbs (Finite a) = Finite \<bar>a\<bar>"
| "mathAbs PosInf = PosInf"
| "mathAbs NegInf = PosInf"
| "mathAbs NaN = NaN"

fun numLess :: "number \<Rightarrow> number \<Rightarrow> bool" where
  "numLess (Finite a) (Finite b) = (a < b)"
| "numLess NaN y = False"
| "numLess x NaN = False"
| "numLess NegInf NegInf = False"
| "numLess NegInf y = True"
| "numLess PosInf y = False"
| "numLess (Finite a) PosInf = True"
| "numLess (Finite a) NegInf = False"

section \<open>The host page\<close>

text \<open>
  The parallax controller of the site's scripts (the inline class of the main and
  contact entry points, and the module class of the same name) talks to four parts of the
  browser: the document (\<open>querySelector\<close>), the window's scroll position and
  width, the window's scroll listeners, and the animation-frame queue. They are the
  fields of \<open>window\<close>.
\<close>

type_synonym element = nat

text \<open>The value of \<open>style.transform\<close>: the template
  \<^verbatim>\<open>translate3d(0, ${v}px, 0)\<close>, with its three components in pixels.\<close>

datatype transform = translate3d number number number

datatype error = TypeError

text \<open>
  Function objects. A method taken from the prototype is the same object every time; each
  \<open>f.bind(this)\<close> allocates a new object, identified by its allocation number.
  \<open>klass\<close> says which of the two controller classes the method belongs to.
\<close>

datatype klass = MainJs | ParallaxModule

datatype routine = HandleScroll | UpdateParallax

datatype fn = Unbound klass routine | Bound nat klass routine

record window =
  document :: "(element \<times> string list) list"
  scrollPosition :: real
  innerWidth :: int
  reducedMotionQuery :: bool
  style_transform :: "element \<Rightarrow> transform option"
  scrollListeners :: "(fn \<times> bool) list"
  rafQueue :: "fn list"
  nextFn :: nat
  styleWrites :: "(element \<times> transform) list"
  writtenAt :: "number list"
  updateRuns :: nat

text \<open>
  \<open>document\<close> lists the elements in tree order with their class names;
  \<open>reducedMotionQuery\<close> is what
  \<^verbatim>\<open>matchMedia('(prefers-reduced-motion: reduce)').matches\<close> returns;
  a scroll listener is stored with its \<open>passive\<close> option. The last three fields
  observe the run and are never read by the program: \<open>styleWrites\<close> logs every
  assignment to a \<open>style.transform\<close>, \<open>writtenAt\<close> the value of
  \<open>window.pageYOffset\<close> at each of those assignments, and \<open>updateRuns\<close>
  counts the executions of \<open>updateParallax\<close>.
\<close>

text \<open>\<open>window.pageYOffset\<close> reports the scroll position as a number: the
  binary64 value nearest to it.\<close>

definition pageYOffset :: "window \<Rightarrow> number" where
  "pageYOffset w = toDouble (scrollPosition w)"

record elements =
  layerBack :: "element option"
  layerMid :: "element option"
  layerFront :: "element option"

text \<open>
  The controller object. \<open>handleScroll_ref\<close> and \<open>updateParallax_ref\<close>
  are what \<open>this.handleScroll\<close> and \<open>this.updateParallax\<close> evaluate to: the
  prototype's methods until \<open>init\<close> of the inline class overwrites them with
  bound copies. \<open>options\<close> exists in the module class only.
\<close>

record controller =
  elements :: elements
  ticking :: bool
  lastScrollY :: number
  handleScroll_ref :: fn
  updateParallax_ref :: fn
  options :: "(string \<rightharpoonup> real) option"

definition bindE :: "error + 'a \<Rightarrow> ('a \<Rightarrow> error + 'b) \<Rightarrow> error + 'b" where
  "bindE r f = (case r of Inl e \<Rightarrow> Inl e | Inr x \<Rightarrow> f x)"

subsection \<open>Browser primitives\<close>

text \<open>\<open>document.querySelector('.cls')\<close>: the first element in tree order that has
  the class, or null.\<close>

fun querySelector :: "string \<Rightarrow> (element \<times> string list) list \<Rightarrow> element option" where
  "querySelector cls [] = None"
| "querySelector cls ((e, cs) # rest) =
     (if cls \<in> set cs then Some e else querySelector cls rest)"

text \<open>\<open>addEventListener('scroll', f, {passive: p})\<close> ignores a callback that is
  already registered; \<open>removeEventListener('scroll', f)\<close> removes the entry whose
  callback is the same object, and does nothing when there is none.\<close>

definition addEventListener :: "fn \<Rightarrow> bool \<Rightarrow> window \<Rightarrow> window" where
  "addEventListener f p w =
     (if f \<in> fst ` set (scrollListeners w) then w
      else w\<lparr>scrollListeners := scrollListeners w @ [(f, p)]\<rparr>)"

definition removeEventListener :: "fn \<Rightarrow> window \<Rightarrow> window" where
  "removeEventListener f w =
     w\<lparr>scrollListeners := filter (\<lambda>l. fst l \<noteq> f) (scrollListeners w)\<rparr>"

definition requestAnimationFrame :: "fn \<Rightarrow> window \<Rightarrow> window" where
  "requestAnimationFrame f w = w\<lparr>rafQueue := rafQueue w @ [f]\<rparr>"

text \<open>\<open>this.m.bind(this)\<close> on a prototype method \<open>m\<close> of class \<open>k\<close>.\<close>

definition bindFn :: "klass \<Rightarrow> routine \<Rightarrow> window \<Rightarrow> fn \<times> window" where
  "bindFn k m w = (Bound (nextFn w) k m, w\<lparr>nextFn := Suc (nextFn w)\<rparr>)"

text \<open>\<open>el.style.transform = t\<close>: a TypeError when \<open>el\<close> is null.\<close>

definition setTransform :: "element option \<Rightarrow> transform \<Rightarrow> window \<Rightarrow> error + window" where
  "setTransform el t w =
     (case el of
        None \<Rightarrow> Inl TypeError
      | Some e \<Rightarrow>
          Inr (w\<lparr>style_transform := (style_transform w)(e \<mapsto> t),
                 styleWrites := styleWrites w @ [(e, t)],
                 writtenAt := writtenAt w @ [pageYOffset w]\<rparr>))"

definition prefersReducedMotion :: "window \<Rightarrow> bool" where
  "prefersReducedMotion w = reducedMotionQuery w"

definition isMobile :: "window \<Rightarrow> bool" where
  "isMobile w = (innerWidth w \<le> 768)"

section \<open>ParallaxController\<close>

definition hasParallaxElements :: "controller \<Rightarrow> bool" where
  "hasParallaxElements c =
     (layerBack (elements c) \<noteq> None \<or> layerMid (elements c) \<noteq> None
      \<or> layerFront (elements c) \<noteq> None)"

definition updateParallax :: "controller \<Rightarrow> window \<Rightarrow> error + (controller \<times> window)" where
  "updateParallax c w0 =
     (let w = w0\<lparr>updateRuns := Suc (updateRuns w0)\<rparr>;
          scrolled = pageYOffset w
      in if numLess (mathAbs (numSub scrolled (lastScrollY c))) (Finite 1)
         then Inr (c\<lparr>ticking := False\<rparr>, w)
         else
           bindE (if layerBack (elements c) \<noteq> None
                  then setTransform (layerBack (elements c))
                         (translate3d (Finite 0) (numMul scrolled (toDouble (- 0.2))) (Finite 0)) w
                  else Inr w) (\<lambda>w1.
           bindE (if layerMid (elements c) \<noteq> None
                  then setTransform (layerMid (elements c))
                         (translate3d (Finite 0) (numMul scrolled (toDouble (- 0.5))) (Finite 0)) w1
                  else Inr w1) (\<lambda>w2.
           bindE (if layerFront (elements c) \<noteq> None
                  then setTransform (layerFront (elements c))
                         (translate3d (Finite 0) (numMul scrolled (toDouble (- 0.8))) (Finite 0)) w2
                  else Inr w2) (\<lambda>w3.
           Inr (c\<lparr>lastScrollY := scrolled, ticking := False\<rparr>, w3)))))"

definition handleScroll :: "controller \<Rightarrow> window \<Rightarrow> error + (controller \<times> window)" where
  "handleScroll c w =
     (if \<not> ticking c
      then Inr (c\<lparr>ticking := True\<rparr>, requestAnimationFrame (updateParallax_ref c) w)
      else Inr (c, w))"

definition init :: "controller \<Rightarrow> window \<Rightarrow> error + (controller \<times> window)" where
  "init c w =
     (if \<not> hasParallaxElements c then Inr (c, w)
      else
        let (h, w1) = bindFn MainJs HandleScroll w;
            (u, w2) = bindFn MainJs UpdateParallax w1;
            c1 = c\<lparr>handleScroll_ref := h, updateParallax_ref := u\<rparr>
        in updateParallax c1 (addEventListener h True w2))"

definition constructor :: "window \<Rightarrow> error + (controller \<times> window)" where
  "constructor w =
     init \<lparr>elements = \<lparr>layerBack = querySelector ''layer-back'' (document w),
                        layerMid = querySelector ''layer-mid'' (document w),
                        layerFront = querySelector ''layer-front'' (document w)\<rparr>,
           ticking = False,
           lastScrollY = Finite 0,
           handleScroll_ref = Unbound MainJs HandleScroll,
           updateParallax_ref = Unbound MainJs UpdateParallax,
           options = None\<rparr> w"

definition destroy :: "controller \<Rightarrow> window \<Rightarrow> error + (controller \<times> window)" where
  "destroy c w = Inr (c, removeEventListener (handleScroll_ref c) w)"

subsection \<open>The module class\<close>

text \<open>
  The class of the parallax module differs from the inline one in three places: the
  constructor takes options, \<open>init\<close> and \<open>handleScroll\<close> pass a fresh
  \<open>bind\<close> to the browser instead of storing it, and so does \<open>destroy\<close>. Its
  \<open>updateParallax\<close> is the routine above, statement for statement.
\<close>

definition handleScroll_module :: "controller \<Rightarrow> window \<Rightarrow> error + (controller \<times> window)" where
  "handleScroll_module c w =
     (if \<not> ticking c
      then let (u, w1) = bindFn ParallaxModule UpdateParallax w
           in Inr (c\<lparr>ticking := True\<rparr>, requestAnimationFrame u w1)
      else Inr (c, w))"

definition init_module :: "controller \<Rightarrow> window \<Rightarrow> error + (controller \<times> window)" where
  "init_module c w =
     (if \<not> hasParallaxElements c then Inr (c, w)
      else
        let (h, w1) = bindFn ParallaxModule HandleScroll w
        in updateParallax c (addEventListener h True w1))"

definition constructor_module :: "(string \<rightharpoonup> real) \<Rightarrow> window \<Rightarrow> error + (controller \<times> window)" where
  "constructor_module opts w =
     init_module
       \<lparr>elements = \<lparr>layerBack = querySelector ''layer-back'' (document w),
                     layerMid = querySelector ''layer-mid'' (document w),
                     layerFront = querySelector ''layer-front'' (document w)\<rparr>,
        ticking = False,
        lastScrollY = Finite 0,
        handleScroll_ref = Unbound ParallaxModule HandleScroll,
        updateParallax_ref = Unbound ParallaxModule UpdateParallax,
        options = Some ([''throttleDelay'' \<mapsto> 16] ++ opts)\<rparr> w"

definition destroy_module :: "controller \<Rightarrow> window \<Rightarrow> error + (controller \<times> window)" where
  "destroy_module c w =
     (let (h, w1) = bindFn ParallaxModule HandleScroll w
      in Inr (c, removeEventListener h w1))"

section \<open>The event loop\<close>

text \<open>
  Calling a function object as a callback. A bound function runs its method on the
  controller; a prototype method called without its receiver reads fields of
  \<open>undefined\<close> and throws.
\<close>

fun call :: "fn \<Rightarrow> controller \<Rightarrow> window \<Rightarrow> error + (controller \<times> window)" where
  "call (Bound i MainJs HandleScroll) c w = handleScroll c w"
| "call (Bound i ParallaxModule HandleScroll) c w = handleScroll_module c w"
| "call (Bound i k UpdateParallax) c w = updateParallax c w"
| "call (Unbound k m) c w = Inl TypeError"

fun callAll :: "fn list \<Rightarrow> controller \<Rightarrow> window \<Rightarrow> error + (controller \<times> window)" where
  "callAll [] c w = Inr (c, w)"
| "callAll (f # fs) c w = bindE (call f c w) (\<lambda>(c1, w1). callAll fs c1 w1)"

text \<open>A scroll notification runs the registered listeners in order; a rendering frame
  takes the queued callbacks, empties the queue and runs them in order.\<close>

definition dispatchScroll :: "controller \<Rightarrow> window \<Rightarrow> error + (controller \<times> window)" where
  "dispatchScroll c w = callAll (map fst (scrollListeners w)) c w"

definition runFrame :: "controller \<Rightarrow> window \<Rightarrow> error + (controller \<times> window)" where
  "runFrame c w = callAll (rafQueue w) c (w\<lparr>rafQueue := []\<rparr>)"

text \<open>What can happen to a page that holds an inline controller: the user scrolls, the
  browser delivers a scroll notification or a rendering frame, another script changes the
  document, the page tears the controller down.\<close>

datatype event =
    ScrollTo real
  | ScrollEvent
  | Frame
  | DocumentChanged "(element \<times> string list) list"
  | Destroy

fun step :: "event \<Rightarrow> controller \<times> window \<Rightarrow> error + (controller \<times> window)" where
  "step (ScrollTo y) (c, w) = Inr (c, w\<lparr>scrollPosition := y\<rparr>)"
| "step ScrollEvent (c, w) = dispatchScroll c w"
| "step Frame (c, w) = runFrame c w"
| "step (DocumentChanged d) (c, w) = Inr (c, w\<lparr>document := d\<rparr>)"
| "step Destroy (c, w) = destroy c w"

fun run :: "event list \<Rightarrow> controller \<times> window \<Rightarrow> error + (controller \<times> window)" where
  "run [] s = Inr s"
| "run (ev # evs) s = bindE (step ev s) (run evs)"

text \<open>The window when the document has loaded: nothing is subscribed, nothing is
  scheduled, nothing has been bound.\<close>

definition pageLoad ::
  "(element \<times> string list) list \<Rightarrow> (element \<Rightarrow> transform option) \<Rightarrow> real \<Rightarrow> int \<Rightarrow> bool \<Rightarrow> window" where
  "pageLoad doc st y width rm =
     \<lparr>document = doc, scrollPosition = y, innerWidth = width, reducedMotionQuery = rm,
      style_transform = st, scrollListeners = [], rafQueue = [], nextFn = 0,
      styleWrites = [], writtenAt = [], updateRuns = 0\<rparr>"

text \<open>A controller's lifetime: constructed on a loaded page, then any events.\<close>

definition lifetime ::
  "window \<Rightarrow> event list \<Rightarrow> error + (controller \<times> window)" where
  "lifetime w evs = bindE (constructor w) (run evs)"

text \<open>
  \<open>initApp\<close>, as far as the parallax state goes: the theme controller, the contact
  form and the click delegation act on attributes, storage and click listeners, which
  \<open>window\<close> does not hold. The result is the global \<open>parallaxController\<close>.
\<close>

definition initApp :: "window \<Rightarrow> error + (controller option \<times> window)" where
  "initApp w =
     (if \<not> prefersReducedMotion w \<and> \<not> isMobile w
      then bindE (constructor w) (\<lambda>(c, w1). Inr (Some c, w1))
      else Inr (None, w))"

text \<open>The same events on a page that holds a controller of the module class.\<close>

fun step_module :: "event \<Rightarrow> controller \<times> window \<Rightarrow> error + (controller \<times> window)" where
  "step_module (ScrollTo y) (c, w) = Inr (c, w\<lparr>scrollPosition := y\<rparr>)"
| "step_module ScrollEvent (c, w) = dispatchScroll c w"
| "step_module Frame (c, w) = runFrame c w"
| "step_module (DocumentChanged d) (c, w) = Inr (c, w\<lparr>document := d\<rparr>)"
| "step_module Destroy (c, w) = destroy_module c w"

fun run_module :: "event list \<Rightarrow> controller \<times> window \<Rightarrow> error + (controller \<times> window)" where
  "run_module [] s = Inr s"
| "run_module (ev # evs) s = bindE (step_module ev s) (run_module evs)"

definition lifetime_module ::
  "(string \<rightharpoonup> real) \<Rightarrow> window \<Rightarrow> event list \<Rightarrow> error + (controller \<times> window)" where
  "lifetime_module opts w evs = bindE (constructor_module opts w) (run_module evs)"

section \<open>Notions used in the statements\<close>

text \<open>The assignments one writing pass of \<open>updateParallax\<close> makes at scroll position
  \<open>S\<close>, in order, and their effect on the styles.\<close>

definition layerWrite :: "element option \<Rightarrow> number \<Rightarrow> (element \<times> transform) list" where
  "layerWrite el v =
     (case el of None \<Rightarrow> [] | Some e \<Rightarrow> [(e, translate3d (Finite 0) v (Finite 0))])"

definition layerWrites :: "elements \<Rightarrow> number \<Rightarrow> (element \<times> transform) list" where
  "layerWrites els S =
     layerWrite (layerBack els) (numMul S (toDouble (- 0.2)))
     @ layerWrite (layerMid els) (numMul S (toDouble (- 0.5)))
     @ layerWrite (layerFront els) (numMul S (toDouble (- 0.8)))"

definition applyWrites ::
  "(element \<times> transform) list \<Rightarrow> (element \<Rightarrow> transform option) \<Rightarrow> (element \<Rightarrow> transform option)" where
  "applyWrites ws st = foldl (\<lambda>s (e, t). s(e \<mapsto> t)) st ws"

fun boundTo :: "klass \<Rightarrow> routine \<Rightarrow> fn \<Rightarrow> bool" where
  "boundTo k m (Bound i k' m') = (k = k' \<and> m = m')"
| "boundTo k m (Unbound k' m') = False"

text \<open>
  The invariant of a page with an inline controller: the frame queue holds the bound
  update routine exactly when the pending flag is set; a controller with layers has bound
  its two methods and is subscribed at most once with its own handler; a controller
  without layers is subscribed nowhere and has written nothing; the two logs of writes
  have the same length; and they are empty with \<open>lastScrollY = 0\<close>, or end with the
  writing pass for \<open>lastScrollY\<close>, made at the position \<open>lastScrollY\<close>.
\<close>

definition coherent :: "controller \<times> window \<Rightarrow> bool" where
  "coherent s =
     (case s of (c, w) \<Rightarrow>
        rafQueue w = (if ticking c then [updateParallax_ref c] else []) \<and>
        (if hasParallaxElements c
         then boundTo MainJs HandleScroll (handleScroll_ref c) \<and>
              boundTo MainJs UpdateParallax (updateParallax_ref c) \<and>
              (scrollListeners w = [] \<or> scrollListeners w = [(handleScroll_ref c, True)])
         else scrollListeners w = [] \<and> \<not> ticking c \<and> styleWrites w = []) \<and>
        length (writtenAt w) = length (styleWrites w) \<and>
        (styleWrites w = [] \<and> lastScrollY c = Finite 0 \<or>
         hasParallaxElements c \<and> writtenAt w \<noteq> [] \<and> last (writtenAt w) = lastScrollY c \<and>
         (\<exists>ws. styleWrites w = ws @ layerWrites (elements c) (lastScrollY c))))"

text \<open>Scroll activity between two frames: position changes and notifications.\<close>

fun isScrollActivity :: "event \<Rightarrow> bool" where
  "isScrollActivity (ScrollTo y) = True"
| "isScrollActivity ScrollEvent = True"
| "isScrollActivity ev = False"

text \<open>A layer of one of the three class names is in the document.\<close>

definition layerPresent :: "(element \<times> string list) list \<Rightarrow> bool" where
  "layerPresent doc =
     list_ex (\<lambda>(e, cs). ''layer-back'' \<in> set cs \<or> ''layer-mid'' \<in> set cs
                \<or> ''layer-front'' \<in> set cs) doc"

subsection \<open>Sample pages\<close>

definition samplePage :: "real \<Rightarrow> window" where
  "samplePage y =
     pageLoad [(0, [''hero'']), (1, [''layer'', ''layer-back'']), (2, [''layer-mid'']),
               (3, [''layer-front''])] Map.empty y 1280 False"

definition midOnlyPage :: "real \<Rightarrow> window" where
  "midOnlyPage y = pageLoad [(0, [''hero'']), (1, [''layer-mid''])] Map.empty y 1280 False"

text \<open>The mid-only page on which another script and the controller are both subscribed
  to scroll.\<close>

definition sharedPage :: "real \<Rightarrow> window" where
  "sharedPage y =
     (midOnlyPage y)\<lparr>scrollListeners :=
        [(Bound 7 ParallaxModule HandleScroll, False), (Bound 0 MainJs HandleScroll, True)]\<rparr>"

definition plainPage :: "int \<Rightarrow> bool \<Rightarrow> window" where
  "plainPage width rm = pageLoad [(0, [''hero'']), (1, [''faq-answer''])] Map.empty 0 width rm"

definition layeredController :: "number \<Rightarrow> controller" where
  "layeredController y =
     \<lparr>elements = \<lparr>layerBack = Some 1, layerMid = Some 2, layerFront = Some 3\<rparr>,
      ticking = True, lastScrollY = y,
      handleScroll_ref = Bound 0 MainJs HandleScroll,
      updateParallax_ref = Bound 1 MainJs UpdateParallax,
      options = None\<rparr>"

definition midOnlyController :: "number \<Rightarrow> controller" where
  "midOnlyController y =
     \<lparr>elements = \<lparr>layerBack = None, layerMid = Some 1, layerFront = None\<rparr>,
      ticking = True, lastScrollY = y,
      handleScroll_ref = Bound 0 MainJs HandleScroll,
      updateParallax_ref = Bound 1 MainJs UpdateParallax,
      options = None\<rparr>"

section \<open>Facts about rounding\<close>

lemma powi2_less_iff: "((2::real) powi a < 2 powi b) = (a < b)"
proof
  assume l: "(2::real) powi a < 2 powi b"
  show "a < b"
  proof (rule ccontr)
    assume "\<not> a < b"
    then have "b \<le> a" by simp
    then have "(2::real) powi b \<le> 2 powi a" by (intro power_int_increasing) simp_all
    with l show False by simp
  qed
next
  assume "a < b"
  then show "(2::real) powi a < 2 powi b" by (intro power_int_strict_increasing) simp_all
qed

lemma powi2_le_iff: "((2::real) powi a \<le> 2 powi b) = (a \<le> b)"
  using powi2_less_iff [of b a] by (simp add: not_less [symmetric])

lemma powi2_shift: "(2::real) powi a = 2 ^ nat (a - b) * 2 powi b" if "b \<le> a"
proof -
  have "(2::real) powi ((a - b) + b) = 2 powi (a - b) * 2 powi b"
    by (rule power_int_add) simp
  with that show ?thesis by (simp add: power_int_nonneg_exp)
qed

lemma exponent_lower:
  assumes "r \<noteq> 0"
  shows "2 powi exponent r \<le> \<bar>r\<bar>"
proof (cases "1 \<le> \<bar>r\<bar>")
  case True
  define m where "m = \<lfloor>\<bar>r\<bar>\<rfloor>"
  from True have m: "0 < m" by (simp add: m_def)
  then have b: "1 \<le> bitlen m" by (simp add: bitlen_alt_def)
  from bitlen_bounds [OF m] have "2 ^ nat (bitlen m - 1) \<le> m" by simp
  then have "real_of_int (2 ^ nat (bitlen m - 1)) \<le> real_of_int m" by linarith
  also have "\<dots> \<le> \<bar>r\<bar>" by (simp add: m_def)
  finally have "2 ^ nat (bitlen m - 1) \<le> \<bar>r\<bar>" by simp
  with b True show ?thesis by (simp add: exponent_def m_def power_int_nonneg_exp)
next
  case False
  define t where "t = 1 / \<bar>r\<bar>"
  define m where "m = \<lceil>t\<rceil> - 1"
  from False assms have t: "1 < t" by (simp add: t_def)
  then have m: "0 < m" unfolding m_def by linarith
  from bitlen_bounds [OF m] have "m < 2 ^ nat (bitlen m)" by simp
  then have "\<lceil>t\<rceil> \<le> 2 ^ nat (bitlen m)" by (simp add: m_def)
  then have "t \<le> 2 ^ nat (bitlen m)" by (simp add: ceiling_le_iff)
  then have "1 / 2 ^ nat (bitlen m) \<le> \<bar>r\<bar>"
    using assms by (simp add: t_def field_simps)
  moreover have "(2::real) powi (- bitlen m) = 1 / 2 ^ nat (bitlen m)"
    using bitlen_nonneg [of m] by (simp add: power_int_minus_divide power_int_nonneg_exp)
  ultimately show ?thesis using False by (simp add: exponent_def m_def t_def)
qed

lemma exponent_upper:
  assumes "r \<noteq> 0"
  shows "\<bar>r\<bar> < 2 powi (exponent r + 1)"
proof (cases "1 \<le> \<bar>r\<bar>")
  case True
  define m where "m = \<lfloor>\<bar>r\<bar>\<rfloor>"
  from True have m: "0 < m" by (simp add: m_def)
  then have b: "1 \<le> bitlen m" by (simp add: bitlen_alt_def)
  from bitlen_bounds [OF m] have "m + 1 \<le> 2 ^ nat (bitlen m)" by simp
  then have "real_of_int (m + 1) \<le> real_of_int (2 ^ nat (bitlen m))" by linarith
  moreover have "\<bar>r\<bar> < real_of_int (m + 1)" unfolding m_def by linarith
  ultimately have "\<bar>r\<bar> < 2 ^ nat (bitlen m)" by simp
  with b True show ?thesis by (simp add: exponent_def m_def power_int_nonneg_exp)
next
  case False
  define t where "t = 1 / \<bar>r\<bar>"
  define m where "m = \<lceil>t\<rceil> - 1"
  from False assms have t: "1 < t" by (simp add: t_def)
  then have m: "0 < m" unfolding m_def by linarith
  then have b: "1 \<le> bitlen m" by (simp add: bitlen_alt_def)
  from bitlen_bounds [OF m] have "2 ^ nat (bitlen m - 1) \<le> m" by simp
  then have "real_of_int (2 ^ nat (bitlen m - 1)) \<le> real_of_int m" by linarith
  moreover have "real_of_int m < t" unfolding m_def by linarith
  ultimately have "real_of_int (2 ^ nat (bitlen m - 1)) < t" by linarith
  then have "2 ^ nat (bitlen m - 1) < t" by simp
  then have "\<bar>r\<bar> < 1 / 2 ^ nat (bitlen m - 1)"
    using assms by (simp add: t_def field_simps)
  moreover have "(2::real) powi (- bitlen m + 1) = 1 / 2 ^ nat (bitlen m - 1)"
  proof -
    have "- bitlen m + 1 = - (bitlen m - 1)" by simp
    then show ?thesis using b
      by (simp only: power_int_minus_divide) (simp add: power_int_nonneg_exp)
  qed
  ultimately show ?thesis using False by (simp add: exponent_def m_def t_def)
qed

lemma exponent_unique:
  assumes "2 powi k \<le> \<bar>r\<bar>" and "\<bar>r\<bar> < 2 powi (k + 1)"
  shows "exponent r = k"
proof -
  have r: "r \<noteq> 0"
  proof
    assume "r = 0"
    with assms(1) have "(2::real) powi k \<le> 0" by simp
    moreover have "(0::real) < 2 powi k" by (rule zero_less_power_int) simp
    ultimately show False by linarith
  qed
  have "(2::real) powi k < 2 powi (exponent r + 1)"
    using assms(1) exponent_upper [OF r] by linarith
  then have a: "k < exponent r + 1" by (simp only: powi2_less_iff)
  have "(2::real) powi exponent r < 2 powi (k + 1)"
    using assms(2) exponent_lower [OF r] by linarith
  then have "exponent r < k + 1" by (simp only: powi2_less_iff)
  with a show ?thesis by simp
qed

lemma roundEven_error: "\<bar>real_of_int (roundEven x) - x\<bar> \<le> 1 / 2"
  unfolding roundEven_def Let_def by (auto; linarith)

lemma roundEven_of_int [simp]: "roundEven (real_of_int n) = n"
  by (simp add: roundEven_def)

lemma roundEven_ge:
  assumes "real_of_int k \<le> x"
  shows "k \<le> roundEven x"
proof -
  from assms have "k \<le> \<lfloor>x\<rfloor>" by (simp add: le_floor_iff)
  then show ?thesis unfolding roundEven_def Let_def by auto
qed

lemma roundEven_le:
  assumes "x \<le> real_of_int k"
  shows "roundEven x \<le> k"
proof (cases "x = real_of_int k")
  case True
  then show ?thesis by simp
next
  case False
  with assms have "x < real_of_int k" by simp
  then have "\<lfloor>x\<rfloor> < k" by (simp add: floor_less_iff)
  then have "\<lfloor>x\<rfloor> + 1 \<le> k" by simp
  then show ?thesis unfolding roundEven_def Let_def by auto
qed

lemma quantum_pos: "0 < quantum r"
  by (simp add: quantum_def)

lemma round64_error: "\<bar>round64 r - r\<bar> \<le> \<bar>r\<bar> / 2 ^ 53 + 2 powi (- 1075)"
proof (cases "r = 0")
  case True
  then show ?thesis by (simp add: round64_def)
next
  case False
  define e where "e = max (exponent r) (- 1022)"
  define q where "q = (2::real) powi (e - 52)"
  have q: "0 < q" "quantum r = q" by (simp_all add: q_def e_def quantum_def)
  have "round64 r - r = (real_of_int (roundEven (r / q)) - r / q) * q"
    using False q by (simp add: round64_def field_simps)
  then have "\<bar>round64 r - r\<bar> = \<bar>real_of_int (roundEven (r / q)) - r / q\<bar> * q"
    using q by (simp add: abs_mult)
  also have "\<dots> \<le> 1 / 2 * q"
    using roundEven_error [of "r / q"] q by (intro mult_right_mono) simp_all
  also have "1 / 2 * q = 2 powi (e - 53)"
  proof -
    have "(2::real) powi ((e - 53) + 1) = 2 powi (e - 53) * 2 powi 1"
      by (rule power_int_add) simp
    then have "q = 2 powi (e - 53) * 2" unfolding q_def by simp
    then show ?thesis by simp
  qed
  finally have err: "\<bar>round64 r - r\<bar> \<le> 2 powi (e - 53)" .
  show ?thesis
  proof (cases "- 1022 \<le> exponent r")
    case True
    then have "e = exponent r" by (simp add: e_def)
    then have "(2::real) powi (e - 53) = 2 powi exponent r / 2 ^ 53"
      by (simp add: power_int_diff)
    also have "\<dots> \<le> \<bar>r\<bar> / 2 ^ 53"
      using exponent_lower [OF False] by (simp add: divide_right_mono)
    finally have "(2::real) powi (e - 53) \<le> \<bar>r\<bar> / 2 ^ 53" .
    moreover have "(0::real) \<le> 2 powi (- 1075)" by simp
    ultimately show ?thesis using err by linarith
  next
    case False
    then have "e = - 1022" by (simp add: e_def)
    then have "(2::real) powi (e - 53) = 2 powi (- 1075)" by simp
    moreover have "0 \<le> \<bar>r\<bar> / 2 ^ 53" by simp
    ultimately show ?thesis using err by linarith
  qed
qed

lemma toDouble_Finite_iff:
  "(toDouble r = Finite v) = (v = round64 r \<and> \<bar>round64 r\<bar> < 2 powi 1024)"
  by (auto simp: toDouble_def Let_def)

lemma round64_integral:
  assumes "v = real_of_int m * quantum v"
  shows "round64 v = v"
proof (cases "v = 0")
  case True
  then show ?thesis by (simp add: round64_def)
next
  case False
  from assms quantum_pos [of v] have "v / quantum v = real_of_int m" by (simp add: field_simps)
  with False assms show ?thesis by (simp add: round64_def)
qed

lemma mantissa_bound:
  assumes "r \<noteq> 0"
  shows "\<bar>roundEven (r / quantum r)\<bar> \<le> 2 ^ 53"
proof -
  define e where "e = max (exponent r) (- 1022)"
  have q: "quantum r = 2 powi (e - 52)" by (simp add: quantum_def e_def)
  have "exponent r + 1 \<le> e + 1" by (simp add: e_def)
  then have "(2::real) powi (exponent r + 1) \<le> 2 powi (e + 1)" by (simp only: powi2_le_iff)
  with exponent_upper [OF assms] have "\<bar>r\<bar> < 2 powi (e + 1)" by linarith
  also have "(2::real) powi (e + 1) = 2 ^ 53 * quantum r"
    using powi2_shift [of "e - 52" "e + 1"] by (simp add: q)
  finally have "\<bar>r\<bar> / quantum r < 2 ^ 53"
    using quantum_pos [of r] by (simp add: field_simps)
  moreover define x where "x = r / quantum r"
  ultimately have "\<bar>x\<bar> < 2 ^ 53"
    using quantum_pos [of r] by (simp add: abs_divide)
  then have a: "x \<le> real_of_int (2 ^ 53)" "real_of_int (- (2 ^ 53)) \<le> x"
    by simp_all
  from roundEven_le [OF a(1)] roundEven_ge [OF a(2)] show ?thesis
    unfolding x_def by linarith
qed

lemma round64_idem: "round64 (round64 r) = round64 r"
proof (cases "round64 r = 0")
  case True
  then show ?thesis by (simp add: round64_def)
next
  case False
  then have r: "r \<noteq> 0" by (auto simp: round64_def)
  define e where "e = max (exponent r) (- 1022)"
  define n where "n = roundEven (r / quantum r)"
  define v where "v = round64 r"
  define e' where "e' = max (exponent v) (- 1022)"
  have q: "quantum r = 2 powi (e - 52)" by (simp add: quantum_def e_def)
  define qv where "qv = quantum v"
  have q': "qv = 2 powi (e' - 52)" by (simp add: qv_def quantum_def e'_def)
  have v: "v = real_of_int n * 2 powi (e - 52)" using r by (simp add: v_def round64_def n_def q)
  from False have v0: "v \<noteq> 0" by (simp add: v_def)
  have n53: "\<bar>n\<bar> \<le> 2 ^ 53" using mantissa_bound [OF r] by (simp add: n_def)
  have p53: "(2::real) powi (e + 1) = 2 ^ 53 * 2 powi (e - 52)"
    using powi2_shift [of "e - 52" "e + 1"] by simp
  have "\<bar>v\<bar> = real_of_int \<bar>n\<bar> * 2 powi (e - 52)" by (simp add: v abs_mult)
  also have "\<dots> \<le> real_of_int (2 ^ 53) * 2 powi (e - 52)"
  proof (rule mult_right_mono)
    show "real_of_int \<bar>n\<bar> \<le> real_of_int (2 ^ 53)" using n53 by (simp only: of_int_le_iff)
    show "(0::real) \<le> 2 powi (e - 52)" by simp
  qed
  finally have vle: "\<bar>v\<bar> \<le> 2 powi (e + 1)" by (simp add: p53)
  with exponent_lower [OF v0] have "(2::real) powi exponent v \<le> 2 powi (e + 1)" by linarith
  then have "exponent v \<le> e + 1" by (simp only: powi2_le_iff)
  moreover have "- 1022 \<le> e" by (simp add: e_def)
  ultimately have e'le: "e' \<le> e + 1" by (simp add: e'_def)
  have "\<exists>m. v = real_of_int m * qv"
  proof (cases "e' \<le> e")
    case True
    then have "(2::real) powi (e - 52) = 2 ^ nat (e - e') * 2 powi (e' - 52)"
      using powi2_shift [of "e' - 52" "e - 52"] by simp
    with v have "v = real_of_int n * (2 ^ nat (e - e') * 2 powi (e' - 52))" by simp
    also have "\<dots> = real_of_int (n * 2 ^ nat (e - e')) * qv" by (simp add: q')
    finally show ?thesis by blast
  next
    case False
    with e'le have e': "e' = e + 1" by simp
    with \<open>- 1022 \<le> e\<close> have "exponent v = e + 1" by (simp add: e'_def max_def split: if_splits)
    with exponent_lower [OF v0] have "(2::real) powi (e + 1) \<le> \<bar>v\<bar>" by simp
    then have "real_of_int (2 ^ 53) * 2 powi (e - 52) \<le> real_of_int \<bar>n\<bar> * 2 powi (e - 52)"
      by (simp add: p53 v abs_mult)
    then have "real_of_int (2 ^ 53) \<le> real_of_int \<bar>n\<bar>"
      by (rule mult_right_le_imp_le) simp
    then have "2 ^ 53 \<le> \<bar>n\<bar>" by linarith
    with n53 have "\<bar>n\<bar> = 2 ^ 53" by simp
    then have "n = 2 ^ 53 \<or> n = - (2 ^ 53)" by linarith
    then have "n = 2 * 2 ^ 52 \<or> n = 2 * - (2 ^ 52)" by simp
    then obtain m where m: "n = 2 * m" by blast
    have "(2::real) powi (e' - 52) = 2 * 2 powi (e - 52)"
      using powi2_shift [of "e - 52" "e' - 52"] by (simp add: e')
    with v m have "v = real_of_int (2 * m) * (qv / 2)" by (simp add: q')
    also have "\<dots> = real_of_int m * qv" by simp
    finally show ?thesis by blast
  qed
  then obtain m where "v = real_of_int m * quantum v" unfolding qv_def ..
  from round64_integral [OF this] show ?thesis by (simp add: v_def)
qed

lemma toDouble_idem: "toDouble r = Finite v \<Longrightarrow> toDouble v = Finite v"
  by (auto simp: toDouble_Finite_iff round64_idem)

lemmas num_eval =
  toDouble_def round64_def quantum_def exponent_def roundEven_def Let_def compute_bitlen

lemma round64_ge_one:
  assumes "1 \<le> \<bar>x\<bar>"
  shows "1 \<le> \<bar>round64 x\<bar>"
proof -
  from assms have x0: "x \<noteq> 0" by auto
  define k where "k = exponent x"
  have "(2::real) powi 0 < 2 powi (k + 1)"
    using assms exponent_upper [OF x0] by (simp add: k_def)
  then have "0 < k + 1" by (simp only: powi2_less_iff)
  then have k0: "0 \<le> k" by simp
  then have q: "quantum x = 2 powi (k - 52)" by (simp add: quantum_def k_def)
  have pk: "(2::real) powi k = 2 ^ 52 * quantum x"
    using powi2_shift [of "k - 52" k] by (simp add: q)
  have one: "(1::real) \<le> 2 powi k" using k0 by (simp add: power_int_nonneg_exp)
  have low: "2 ^ 52 * quantum x \<le> \<bar>x\<bar>"
    using exponent_lower [OF x0] by (simp add: k_def [symmetric] pk)
  define n where "n = roundEven (x / quantum x)"
  have r: "round64 x = real_of_int n * quantum x" using x0 by (simp add: round64_def n_def)
  have "2 ^ 52 \<le> \<bar>n\<bar>"
  proof (cases "0 < x")
    case True
    with low have "real_of_int (2 ^ 52) \<le> x / quantum x"
      using quantum_pos [of x] by (simp add: field_simps)
    from roundEven_ge [OF this] show ?thesis by (simp add: n_def)
  next
    case False
    with low have "x / quantum x \<le> real_of_int (- (2 ^ 52))"
      using quantum_pos [of x] by (simp add: field_simps)
    from roundEven_le [OF this] show ?thesis by (simp add: n_def)
  qed
  then have "real_of_int (2 ^ 52) \<le> real_of_int \<bar>n\<bar>" by (simp only: of_int_le_iff)
  then have "real_of_int (2 ^ 52) * quantum x \<le> real_of_int \<bar>n\<bar> * quantum x"
    using quantum_pos [of x] by (intro mult_right_mono) simp_all
  then have "2 powi k \<le> \<bar>round64 x\<bar>"
    using quantum_pos [of x] by (simp add: r pk abs_mult)
  with one show ?thesis by linarith
qed

lemma threshold_exceeded:
  assumes "1 \<le> \<bar>a - b\<bar>"
  shows "\<not> numLess (mathAbs (numSub (Finite a) (Finite b))) (Finite 1)"
  using round64_ge_one [OF assms] assms
  by (auto simp: toDouble_def Let_def)

lemma threshold_from_zero:
  assumes "toDouble r = Finite s"
  shows "numLess (mathAbs (numSub (Finite s) (Finite 0))) (Finite 1) = (\<bar>s\<bar> < 1)"
  using toDouble_idem [OF assms] by simp

lemma toDouble_fifth: "toDouble (- 0.2) = Finite (- 3602879701896397 / 2 ^ 54)"
  by (simp add: num_eval)

lemma toDouble_half: "toDouble (- 0.5) = Finite (- 1 / 2)"
  by (simp add: num_eval)

lemma toDouble_four_fifths: "toDouble (- 0.8) = Finite (- 3602879701896397 / 2 ^ 52)"
  by (simp add: num_eval)

lemma round64_product_error:
  assumes "\<bar>c - m\<bar> \<le> \<bar>m\<bar> / 2 ^ 54"
  shows "\<bar>round64 (s * c) - m * s\<bar> \<le> \<bar>m * s\<bar> / 2 ^ 52 + 2 powi (- 1075)"
proof -
  define a where "a = \<bar>m * s\<bar>"
  define t where "t = (2::real) powi (- 1075)"
  have a0: "0 \<le> a" by (simp add: a_def)
  have "\<bar>s * c - m * s\<bar> = \<bar>s\<bar> * \<bar>c - m\<bar>" by (simp add: abs_mult [symmetric] algebra_simps)
  also have "\<dots> \<le> \<bar>s\<bar> * (\<bar>m\<bar> / 2 ^ 54)" using assms by (intro mult_left_mono) simp_all
  also have "\<dots> = a / 2 ^ 54" by (simp add: a_def abs_mult)
  finally have d: "\<bar>s * c - m * s\<bar> \<le> a / 2 ^ 54" .
  then have sc: "\<bar>s * c\<bar> \<le> a + a / 2 ^ 54" unfolding a_def by linarith
  have "\<bar>round64 (s * c) - s * c\<bar> \<le> \<bar>s * c\<bar> / 2 ^ 53 + t"
    using round64_error [of "s * c"] by (simp add: t_def)
  also have "\<bar>s * c\<bar> / 2 ^ 53 \<le> (a + a / 2 ^ 54) / 2 ^ 53"
    using sc by (intro divide_right_mono) simp_all
  finally have e: "\<bar>round64 (s * c) - s * c\<bar> \<le> (a + a / 2 ^ 54) / 2 ^ 53 + t" by simp
  have "(a + a / 2 ^ 54) / 2 ^ 53 + a / 2 ^ 54 \<le> a / 2 ^ 52" using a0 by simp
  with d e have "\<bar>round64 (s * c) - m * s\<bar> \<le> a / 2 ^ 52 + t" by linarith
  then show ?thesis by (simp add: a_def t_def)
qed

lemma round64_product_finite:
  assumes "\<bar>s\<bar> < 2 powi 1024" and "\<bar>c\<bar> \<le> 81 / 100"
  shows "\<bar>round64 (s * c)\<bar> < 2 powi 1024"
proof -
  define B where "B = (2::real) powi 1024"
  have B: "0 < B" by (simp add: B_def)
  have "\<bar>s * c\<bar> = \<bar>s\<bar> * \<bar>c\<bar>" by (simp add: abs_mult)
  also have "\<dots> \<le> \<bar>s\<bar> * (81 / 100)" using assms(2) by (intro mult_left_mono) simp_all
  also have "\<dots> \<le> B * (81 / 100)" using assms(1) by (simp add: B_def)
  finally have x: "\<bar>s * c\<bar> \<le> B * (81 / 100)" .
  have "\<bar>round64 (s * c) - s * c\<bar> \<le> \<bar>s * c\<bar> / 2 ^ 53 + 2 powi (- 1075)"
    by (rule round64_error)
  moreover have "\<bar>s * c\<bar> / 2 ^ 53 \<le> \<bar>s * c\<bar> / 100" by (intro divide_left_mono) simp_all
  moreover have "(2::real) powi (- 1075) \<le> B / 100"
  proof -
    have "(- 1075::int) \<le> 0" by simp
    then have "(2::real) powi (- 1075) \<le> 2 powi 0" by (simp only: powi2_le_iff)
    moreover have "(7::int) \<le> 1024" by simp
    then have "(2::real) powi 7 \<le> B" unfolding B_def by (simp only: powi2_le_iff)
    ultimately show ?thesis by simp
  qed
  ultimately have "\<bar>round64 (s * c)\<bar> \<le> \<bar>s * c\<bar> + \<bar>s * c\<bar> / 100 + B / 100" by linarith
  with x B have "\<bar>round64 (s * c)\<bar> < B" by linarith
  then show ?thesis by (simp add: B_def)
qed

lemma finite_magnitude: "toDouble r = Finite s \<Longrightarrow> \<bar>s\<bar> < 2 powi 1024"
  by (auto simp: toDouble_Finite_iff)

lemma layer_product:
  assumes "toDouble r = Finite s" and "toDouble m = Finite c"
    and "\<bar>c - m\<bar> \<le> \<bar>m\<bar> / 2 ^ 54" and "\<bar>c\<bar> \<le> 81 / 100"
  shows "\<exists>v. numMul (Finite s) (toDouble m) = Finite v \<and>
     \<bar>v - m * s\<bar> \<le> \<bar>m * s\<bar> / 2 ^ 52 + 2 powi (- 1075)"
proof -
  from round64_product_finite [OF finite_magnitude [OF assms(1)] assms(4)]
  have "toDouble (s * c) = Finite (round64 (s * c))" by (simp add: toDouble_Finite_iff)
  with assms(2) round64_product_error [OF assms(3), of s] show ?thesis by simp
qed

lemma back_product:
  assumes "toDouble r = Finite s"
  shows "\<exists>v. numMul (Finite s) (toDouble (- 0.2)) = Finite v \<and>
     \<bar>v - (- 0.2) * s\<bar> \<le> \<bar>(- 0.2) * s\<bar> / 2 ^ 52 + 2 powi (- 1075)"
  by (rule layer_product [OF assms toDouble_fifth]) simp_all

lemma mid_product:
  assumes "toDouble r = Finite s"
  shows "\<exists>v. numMul (Finite s) (toDouble (- 0.5)) = Finite v \<and>
     \<bar>v - (- 0.5) * s\<bar> \<le> \<bar>(- 0.5) * s\<bar> / 2 ^ 52 + 2 powi (- 1075)"
  by (rule layer_product [OF assms toDouble_half]) simp_all

lemma front_product:
  assumes "toDouble r = Finite s"
  shows "\<exists>v. numMul (Finite s) (toDouble (- 0.8)) = Finite v \<and>
     \<bar>v - (- 0.8) * s\<bar> \<le> \<bar>(- 0.8) * s\<bar> / 2 ^ 52 + 2 powi (- 1075)"
  by (rule layer_product [OF assms toDouble_four_fifths]) simp_all

lemma round64_dyadic:
  assumes "\<bar>n\<bar> < 2 ^ 53" and "k \<le> 1074"
  shows "round64 (real_of_int n / 2 ^ k) = real_of_int n / 2 ^ k"
proof (cases "n = 0")
  case True
  then show ?thesis by (simp add: round64_def)
next
  case False
  define v where "v = real_of_int n / 2 ^ k"
  have vk: "v = real_of_int n * 2 powi (- int k)"
    by (simp add: v_def power_int_minus_divide)
  from False have v0: "v \<noteq> 0" by (simp add: v_def)
  define e' where "e' = max (exponent v) (- 1022)"
  have q: "quantum v = 2 powi (e' - 52)" by (simp add: quantum_def e'_def)
  have lt: "real_of_int \<bar>n\<bar> < real_of_int (2 ^ 53)" using assms(1) by (simp only: of_int_less_iff)
  have "\<bar>v\<bar> = real_of_int \<bar>n\<bar> * 2 powi (- int k)" by (simp add: vk abs_mult)
  also have "\<dots> < real_of_int (2 ^ 53) * 2 powi (- int k)"
    using lt by (rule mult_strict_right_mono) simp
  also have "\<dots> = 2 powi (53 - int k)"
    using powi2_shift [of "- int k" "53 - int k"] by simp
  finally have "\<bar>v\<bar> < 2 powi (53 - int k)" .
  with exponent_lower [OF v0] have "(2::real) powi exponent v < 2 powi (53 - int k)" by linarith
  then have "exponent v < 53 - int k" by (simp only: powi2_less_iff)
  with assms(2) have "e' - 52 \<le> - int k" by (simp add: e'_def)
  from powi2_shift [OF this]
  have "v = real_of_int n * (2 ^ nat (- int k - (e' - 52)) * 2 powi (e' - 52))"
    by (simp add: vk)
  also have "\<dots> = real_of_int (n * 2 ^ nat (- int k - (e' - 52))) * quantum v"
    by (simp add: q)
  finally have "round64 v = v" by (rule round64_integral)
  then show ?thesis by (simp add: v_def)
qed

lemma toDouble_dyadic:
  assumes "\<bar>n\<bar> < 2 ^ 53" and "k \<le> 1074"
  shows "toDouble (real_of_int n / 2 ^ k) = Finite (real_of_int n / 2 ^ k)"
proof -
  have "\<bar>real_of_int n / 2 ^ k\<bar> \<le> \<bar>real_of_int n\<bar>"
    by (simp add: abs_divide divide_le_eq_1 field_simps) (simp add: mult_le_cancel_left1)
  also have "\<dots> < real_of_int (2 ^ 53)" using assms(1) by linarith
  also have "\<dots> \<le> 2 powi 1024"
  proof -
    have "(2::real) powi 53 \<le> 2 powi 1024" by (simp only: powi2_le_iff) 
    then show ?thesis by simp
  qed
  finally show ?thesis using round64_dyadic [OF assms] by (simp add: toDouble_Finite_iff)
qed

lemma toDouble_zero [simp]: "toDouble 0 = Finite 0"
  by (simp add: toDouble_def round64_def)

lemma toDouble_one [simp]: "toDouble 1 = Finite 1"
  using toDouble_dyadic [of 1 0] by simp

lemma toDouble_numeral [simp]:
  "numeral p < (2::int) ^ 53 \<Longrightarrow> toDouble (numeral p) = Finite (numeral p)"
  "numeral p < (2::int) ^ 53 \<Longrightarrow> toDouble (- numeral p) = Finite (- numeral p)"
  using toDouble_dyadic [of "numeral p" 0] toDouble_dyadic [of "- numeral p" 0] by simp_all

lemma toDouble_halves [simp]:
  "numeral p < (2::int) ^ 53 \<Longrightarrow> toDouble (numeral p / 2) = Finite (numeral p / 2)"
  "numeral p < (2::int) ^ 53 \<Longrightarrow> toDouble (- (numeral p / 2)) = Finite (- (numeral p / 2))"
  "toDouble (1 / 2) = Finite (1 / 2)"
  "toDouble (- (1 / 2)) = Finite (- (1 / 2))"
  using toDouble_dyadic [of "numeral p" 1] toDouble_dyadic [of "- numeral p" 1]
    toDouble_dyadic [of 1 1] toDouble_dyadic [of "- 1" 1]
  by simp_all

section \<open>Basic facts\<close>

lemma bindE_Inr [simp]: "bindE (Inr x) f = f x"
  by (simp add: bindE_def)

lemma bindE_Inl [simp]: "bindE (Inl e) f = Inl e"
  by (simp add: bindE_def)

lemma pageYOffset_update [simp]:
  "pageYOffset (w\<lparr>document := d\<rparr>) = pageYOffset w"
  "pageYOffset (w\<lparr>style_transform := st\<rparr>) = pageYOffset w"
  "pageYOffset (w\<lparr>scrollListeners := ls\<rparr>) = pageYOffset w"
  "pageYOffset (w\<lparr>rafQueue := q\<rparr>) = pageYOffset w"
  "pageYOffset (w\<lparr>nextFn := n\<rparr>) = pageYOffset w"
  "pageYOffset (w\<lparr>styleWrites := ws\<rparr>) = pageYOffset w"
  "pageYOffset (w\<lparr>writtenAt := ps\<rparr>) = pageYOffset w"
  "pageYOffset (w\<lparr>updateRuns := k\<rparr>) = pageYOffset w"
  by (simp_all add: pageYOffset_def)

lemma updateParallax_skip:
  "numLess (mathAbs (numSub (pageYOffset w) (lastScrollY c))) (Finite 1) \<Longrightarrow>
   updateParallax c w = Inr (c\<lparr>ticking := False\<rparr>, w\<lparr>updateRuns := Suc (updateRuns w)\<rparr>)"
  by (simp add: updateParallax_def Let_def)

lemma updateParallax_write:
  "\<not> numLess (mathAbs (numSub (pageYOffset w) (lastScrollY c))) (Finite 1) \<Longrightarrow>
   updateParallax c w =
     Inr (c\<lparr>lastScrollY := pageYOffset w, ticking := False\<rparr>,
          w\<lparr>updateRuns := Suc (updateRuns w),
            style_transform := applyWrites (layerWrites (elements c) (pageYOffset w)) (style_transform w),
            styleWrites := styleWrites w @ layerWrites (elements c) (pageYOffset w),
            writtenAt := writtenAt w
              @ replicate (length (layerWrites (elements c) (pageYOffset w))) (pageYOffset w)\<rparr>)"
  by (cases "layerBack (elements c)"; cases "layerMid (elements c)"; cases "layerFront (elements c)")
     (simp_all add: updateParallax_def Let_def setTransform_def layerWrites_def layerWrite_def applyWrites_def)

lemma updateParallax_total: "\<exists>c' w'. updateParallax c w = Inr (c', w')"
  by (cases "numLess (mathAbs (numSub (pageYOffset w) (lastScrollY c))) (Finite 1)")
     (simp_all add: updateParallax_skip updateParallax_write)

lemma layerWrites_Nil: "(layerWrites (elements c) S = []) = (\<not> hasParallaxElements c)"
  by (auto simp: layerWrites_def layerWrite_def hasParallaxElements_def split: option.splits)

lemma hasParallaxElements_update [simp]:
  "hasParallaxElements (c\<lparr>ticking := b\<rparr>) = hasParallaxElements c"
  "hasParallaxElements (c\<lparr>lastScrollY := y\<rparr>) = hasParallaxElements c"
  by (simp_all add: hasParallaxElements_def)

lemma callAll_single: "callAll [f] c w = call f c w"
  by (cases "call f c w") auto

lemma call_handleScroll: "boundTo MainJs HandleScroll f \<Longrightarrow> call f c w = handleScroll c w"
  by (cases f) auto

lemma call_updateParallax: "boundTo MainJs UpdateParallax f \<Longrightarrow> call f c w = updateParallax c w"
  by (cases f) auto

lemma updateParallax_coherent:
  assumes "coherent (c, w)" and "rafQueue w' = []" "scrollListeners w' = scrollListeners w"
    "styleWrites w' = styleWrites w" "writtenAt w' = writtenAt w" and "hasParallaxElements c"
  shows "\<exists>c1 w1. updateParallax c w' = Inr (c1, w1) \<and> coherent (c1, w1) \<and> \<not> ticking c1
     \<and> rafQueue w1 = [] \<and> updateRuns w1 = Suc (updateRuns w')
     \<and> scrollListeners w1 = scrollListeners w"
proof (cases "numLess (mathAbs (numSub (pageYOffset w') (lastScrollY c))) (Finite 1)")
  case True
  with assms show ?thesis
    by (auto simp: updateParallax_skip coherent_def hasParallaxElements_def)
next
  case False
  with assms show ?thesis
    by (auto simp: updateParallax_write coherent_def hasParallaxElements_def layerWrites_Nil)
qed

lemma constructor_coherent:
  "\<exists>s. constructor (pageLoad doc st y width rm) = Inr s \<and> coherent s"
proof -
  define c0 where "c0 =
    \<lparr>elements = \<lparr>layerBack = querySelector ''layer-back'' doc,
                  layerMid = querySelector ''layer-mid'' doc,
                  layerFront = querySelector ''layer-front'' doc\<rparr>,
     ticking = False, lastScrollY = Finite 0,
     handleScroll_ref = Unbound MainJs HandleScroll,
     updateParallax_ref = Unbound MainJs UpdateParallax,
     options = None\<rparr>"
  define w0 where "w0 = pageLoad doc st y width rm"
  have ctor: "constructor w0 = init c0 w0"
    by (simp add: constructor_def c0_def w0_def pageLoad_def)
  show ?thesis
  proof (cases "hasParallaxElements c0")
    case False
    then have "init c0 w0 = Inr (c0, w0)" by (simp add: init_def)
    moreover from False have "coherent (c0, w0)"
      by (simp add: coherent_def c0_def w0_def pageLoad_def)
    ultimately show ?thesis using ctor by (auto simp: w0_def)
  next
    case True
    define c1 where "c1 = c0\<lparr>handleScroll_ref := Bound 0 MainJs HandleScroll,
                              updateParallax_ref := Bound 1 MainJs UpdateParallax\<rparr>"
    define w2 where "w2 = w0\<lparr>nextFn := 2, scrollListeners := [(Bound 0 MainJs HandleScroll, True)]\<rparr>"
    from True have i: "init c0 w0 = updateParallax c1 w2"
      by (simp add: init_def bindFn_def addEventListener_def c1_def w2_def w0_def pageLoad_def
          numeral_2_eq_2)
    from True have h1: "hasParallaxElements c1"
      by (simp add: hasParallaxElements_def c1_def)
    then have "coherent (c1, w2)"
      by (simp add: coherent_def c1_def c0_def w2_def w0_def pageLoad_def)
    from updateParallax_coherent [OF this _ _ _ _ h1, of w2]
    obtain c' w' where "updateParallax c1 w2 = Inr (c', w')" "coherent (c', w')"
      by (auto simp: w2_def w0_def pageLoad_def)
    then show ?thesis using ctor i by (auto simp: w0_def)
  qed
qed

lemma step_coherent:
  assumes "coherent s"
  shows "\<exists>s'. step ev s = Inr s' \<and> coherent s'"
proof -
  obtain c w where s: "s = (c, w)" by (cases s)
  show ?thesis
  proof (cases ev)
    case (ScrollTo y)
    with assms s show ?thesis by (auto simp: coherent_def)
  next
    case ScrollEvent
    show ?thesis
    proof (cases "scrollListeners w = []")
      case True
      with assms s ScrollEvent show ?thesis by (simp add: dispatchScroll_def)
    next
      case False
      with assms s have h: "hasParallaxElements c" "boundTo MainJs HandleScroll (handleScroll_ref c)"
        "scrollListeners w = [(handleScroll_ref c, True)]"
        by (auto simp: coherent_def split: if_splits)
      then have "step ev s = handleScroll c w"
        using s ScrollEvent by (simp add: dispatchScroll_def call_handleScroll callAll_single del: callAll.simps)
      moreover from assms s h have "\<exists>s'. handleScroll c w = Inr s' \<and> coherent s'"
        by (auto simp: handleScroll_def requestAnimationFrame_def coherent_def)
      ultimately show ?thesis by simp
    qed
  next
    case Frame
    show ?thesis
    proof (cases "ticking c")
      case False
      with assms s have "rafQueue w = []" by (simp add: coherent_def)
      with assms s Frame show ?thesis by (simp add: runFrame_def coherent_def)
    next
      case True
      with assms s have h: "hasParallaxElements c" "boundTo MainJs UpdateParallax (updateParallax_ref c)"
        "rafQueue w = [updateParallax_ref c]"
        by (auto simp: coherent_def split: if_splits)
      from assms s have "coherent (c, w)" by simp
      from updateParallax_coherent [OF this _ _ _ _ h(1), of "w\<lparr>rafQueue := []\<rparr>"]
      obtain c1 w1 where u: "updateParallax c (w\<lparr>rafQueue := []\<rparr>) = Inr (c1, w1)" "coherent (c1, w1)"
        by auto
      with h s Frame show ?thesis
        by (simp add: runFrame_def call_updateParallax callAll_single del: callAll.simps)
    qed
  next
    case (DocumentChanged d)
    with assms s show ?thesis by (auto simp: coherent_def)
  next
    case Destroy
    with assms s show ?thesis
      by (auto simp: destroy_def removeEventListener_def coherent_def split: if_splits)
  qed
qed

lemma run_coherent: "coherent s \<Longrightarrow> \<exists>s'. run evs s = Inr s' \<and> coherent s'"
proof (induction evs arbitrary: s)
  case Nil
  then show ?case by simp
next
  case (Cons ev evs)
  from step_coherent [OF Cons.prems, of ev] obtain s1 where "step ev s = Inr s1" "coherent s1"
    by auto
  with Cons.IH [of s1] show ?case by simp
qed

lemma lifetime_coherent:
  "\<exists>s. lifetime (pageLoad doc st y width rm) evs = Inr s \<and> coherent s"
proof -
  from constructor_coherent [of doc st y width rm] obtain s0
    where "constructor (pageLoad doc st y width rm) = Inr s0" "coherent s0" by auto
  with run_coherent [of s0 evs] show ?thesis by (simp add: lifetime_def)
qed

lemma layerWrites_elements:
  "(e, t) \<in> set (layerWrites els S) \<Longrightarrow>
   Some e = layerBack els \<or> Some e = layerMid els \<or> Some e = layerFront els"
  by (auto simp: layerWrites_def layerWrite_def split: option.splits)

lemma applyWrites_other:
  "e \<notin> fst ` set ws \<Longrightarrow> applyWrites ws st e = st e"
  unfolding applyWrites_def
  by (induction ws arbitrary: st) (auto split: prod.splits)

lemma querySelector_None:
  "(querySelector cls doc = None) = (\<not> list_ex (\<lambda>(e, cs). cls \<in> set cs) doc)"
  by (induction doc) (auto split: if_splits)

lemma layerPresent_iff:
  "layerPresent doc =
     (querySelector ''layer-back'' doc \<noteq> None \<or> querySelector ''layer-mid'' doc \<noteq> None
      \<or> querySelector ''layer-front'' doc \<noteq> None)"
  unfolding querySelector_None layerPresent_def
  by (induction doc) auto

lemma init_total: "\<exists>c' w'. init c w = Inr (c', w')"
  using updateParallax_total by (simp add: init_def bindFn_def)

lemma constructor_total: "\<exists>c w'. constructor w = Inr (c, w')"
  by (simp add: constructor_def init_total)

lemma run_append: "run (xs @ ys) s = bindE (run xs s) (run ys)"
  by (induction xs arbitrary: s) (auto simp: bindE_def split: sum.splits)

lemma scroll_event_step:
  assumes "coherent (c, w)"
  shows "step ScrollEvent (c, w) =
     (if scrollListeners w = [] then Inr (c, w)
      else Inr (c\<lparr>ticking := True\<rparr>, w\<lparr>rafQueue := [updateParallax_ref c]\<rparr>))"
proof (cases "scrollListeners w = []")
  case True
  then show ?thesis by (simp add: dispatchScroll_def)
next
  case False
  with assms have h: "boundTo MainJs HandleScroll (handleScroll_ref c)"
    "scrollListeners w = [(handleScroll_ref c, True)]"
    "rafQueue w = (if ticking c then [updateParallax_ref c] else [])"
    by (auto simp: coherent_def split: if_splits)
  then have "step ScrollEvent (c, w) = handleScroll c w"
    by (simp add: dispatchScroll_def call_handleScroll callAll_single del: callAll.simps)
  also have "\<dots> = Inr (c\<lparr>ticking := True\<rparr>, w\<lparr>rafQueue := [updateParallax_ref c]\<rparr>)"
  proof (cases "ticking c")
    case True
    with h(3) have "c\<lparr>ticking := True\<rparr> = c" "w\<lparr>rafQueue := [updateParallax_ref c]\<rparr> = w"
      by simp_all
    with True show ?thesis by (simp add: handleScroll_def)
  next
    case False
    with h(3) show ?thesis by (simp add: handleScroll_def requestAnimationFrame_def)
  qed
  finally show ?thesis using False by simp
qed

lemma frame_step:
  assumes "coherent (c, w)"
  shows "\<exists>c' w'. step Frame (c, w) = Inr (c', w') \<and> coherent (c', w') \<and> \<not> ticking c'
     \<and> rafQueue w' = [] \<and> updateRuns w' = updateRuns w + length (rafQueue w)
     \<and> scrollListeners w' = scrollListeners w"
proof (cases "ticking c")
  case False
  with assms show ?thesis by (simp add: runFrame_def coherent_def)
next
  case True
  with assms have h: "hasParallaxElements c" "boundTo MainJs UpdateParallax (updateParallax_ref c)"
    "rafQueue w = [updateParallax_ref c]"
    by (auto simp: coherent_def split: if_splits)
  from updateParallax_coherent [OF assms _ _ _ _ h(1), of "w\<lparr>rafQueue := []\<rparr>"]
  obtain c1 w1 where "updateParallax c (w\<lparr>rafQueue := []\<rparr>) = Inr (c1, w1)" "coherent (c1, w1)"
    "\<not> ticking c1" "rafQueue w1 = []" "updateRuns w1 = Suc (updateRuns w)"
    "scrollListeners w1 = scrollListeners w"
    by auto
  with h show ?thesis
    by (simp add: runFrame_def call_updateParallax callAll_single del: callAll.simps)
qed

lemma destroy_step:
  assumes "coherent (c, w)"
  shows "step Destroy (c, w) = Inr (c, w\<lparr>scrollListeners := []\<rparr>)"
  using assms
  by (auto simp: destroy_def removeEventListener_def coherent_def split: if_splits)

lemma burst_run:
  assumes "coherent (c, w)" and "list_all isScrollActivity b"
  shows "\<exists>c' w'. run b (c, w) = Inr (c', w') \<and> coherent (c', w')
     \<and> updateRuns w' = updateRuns w \<and> scrollListeners w' = scrollListeners w
     \<and> ticking c' = (ticking c \<or> scrollListeners w \<noteq> [] \<and> ScrollEvent \<in> set b)"
  using assms
proof (induction b arbitrary: c w)
  case Nil
  then show ?case by simp
next
  case (Cons ev b)
  from Cons.prems(2) have b: "list_all isScrollActivity b" by simp
  from Cons.prems(2) consider y where "ev = ScrollTo y" | "ev = ScrollEvent"
    by (cases ev) auto
  then show ?case
  proof cases
    case 1
    from Cons.prems(1) have "coherent (c, w\<lparr>scrollPosition := y\<rparr>)"
      by (simp add: coherent_def)
    from Cons.IH [OF this b] 1 show ?thesis by auto
  next
    case 2
    show ?thesis
    proof (cases "scrollListeners w = []")
      case True
      with Cons.IH [OF Cons.prems(1) b] 2 scroll_event_step [OF Cons.prems(1)]
      show ?thesis by auto
    next
      case False
      define c1 where "c1 = c\<lparr>ticking := True\<rparr>"
      define w1 where "w1 = w\<lparr>rafQueue := [updateParallax_ref c]\<rparr>"
      from False scroll_event_step [OF Cons.prems(1)]
      have st: "step ScrollEvent (c, w) = Inr (c1, w1)" by (simp add: c1_def w1_def)
      from step_coherent [OF Cons.prems(1), of ScrollEvent] st have "coherent (c1, w1)" by simp
      from Cons.IH [OF this b] st 2 False show ?thesis
        by (auto simp: c1_def w1_def)
    qed
  qed
qed

lemma step_unsubscribed:
  assumes "coherent (c, w)" and "scrollListeners w = []"
  shows "\<exists>c' w'. step ev (c, w) = Inr (c', w') \<and> coherent (c', w') \<and> scrollListeners w' = []"
proof (cases ev)
  case (ScrollTo y)
  with assms show ?thesis by (simp add: coherent_def)
next
  case ScrollEvent
  with assms scroll_event_step [OF assms(1)] show ?thesis by simp
next
  case Frame
  with assms frame_step [OF assms(1)] show ?thesis by auto
next
  case (DocumentChanged d)
  with assms show ?thesis by (simp add: coherent_def)
next
  case Destroy
  with assms destroy_step [OF assms(1)] step_coherent [OF assms(1), of Destroy]
  show ?thesis by simp
qed

lemma run_unsubscribed:
  assumes "coherent (c, w)" and "scrollListeners w = []"
  shows "\<exists>c' w'. run evs (c, w) = Inr (c', w') \<and> coherent (c', w') \<and> scrollListeners w' = []"
  using assms
proof (induction evs arbitrary: c w)
  case Nil
  then show ?case by simp
next
  case (Cons ev evs)
  from step_unsubscribed [OF Cons.prems, of ev] obtain c1 w1
    where "step ev (c, w) = Inr (c1, w1)" "coherent (c1, w1)" "scrollListeners w1 = []"
    by auto
  with Cons.IH [of c1 w1] show ?case by simp
qed

lemma step_inert:
  assumes "coherent (c, w)" and "\<not> hasParallaxElements c"
  shows "\<exists>w'. step ev (c, w) = Inr (c, w') \<and> coherent (c, w') \<and>
     updateRuns w' = updateRuns w \<and> style_transform w' = style_transform w"
proof -
  from assms have q: "scrollListeners w = []" "\<not> ticking c" "rafQueue w = []"
    by (auto simp: coherent_def)
  show ?thesis
  proof (cases ev)
    case (ScrollTo y)
    with assms show ?thesis by (simp add: coherent_def)
  next
    case ScrollEvent
    with assms q show ?thesis by (simp add: dispatchScroll_def)
  next
    case Frame
    with assms q show ?thesis by (simp add: runFrame_def coherent_def)
  next
    case (DocumentChanged d)
    with assms show ?thesis by (simp add: coherent_def)
  next
    case Destroy
    with assms q show ?thesis
      by (simp add: destroy_def removeEventListener_def coherent_def)
  qed
qed

lemma run_inert:
  assumes "coherent (c, w)" and "\<not> hasParallaxElements c"
  shows "\<exists>w'. run evs (c, w) = Inr (c, w') \<and> coherent (c, w') \<and>
     updateRuns w' = updateRuns w \<and> style_transform w' = style_transform w"
  using assms
proof (induction evs arbitrary: w)
  case Nil
  then show ?case by simp
next
  case (Cons ev evs)
  from step_inert [OF Cons.prems, of ev] obtain w1
    where "step ev (c, w) = Inr (c, w1)" "coherent (c, w1)"
      "updateRuns w1 = updateRuns w" "style_transform w1 = style_transform w"
    by auto
  with Cons.IH [of w1] Cons.prems(2) show ?case by auto
qed

lemmas run_defs =
  lifetime_def constructor_def init_def hasParallaxElements_def bindFn_def
  addEventListener_def removeEventListener_def requestAnimationFrame_def
  updateParallax_def setTransform_def handleScroll_def destroy_def
  dispatchScroll_def runFrame_def pageLoad_def pageYOffset_def Let_def

lemmas module_defs =
  lifetime_module_def constructor_module_def init_module_def handleScroll_module_def
  destroy_module_def

lemma applyWrites_layers:
  assumes "Some e = layerBack els \<or> Some e = layerMid els \<or> Some e = layerFront els"
  shows "\<exists>t. (e, t) \<in> set (layerWrites els S) \<and>
     applyWrites (layerWrites els S) st e = Some t"
  using assms
  by (cases "layerBack els"; cases "layerMid els"; cases "layerFront els")
     (auto simp: layerWrites_def layerWrite_def applyWrites_def)

section \<open>The update routine\<close>

text \<open>
  C2. For every scroll position and every \<open>lastScrollY\<close> the update routine returns
  with the pending flag cleared, and \<open>Math.abs(scrolled - lastScrollY) < 1\<close>, computed
  as the program computes it on binary64 numbers, decides what else it does. When the test
  holds, nothing else changes: the window is the old one but for the count of runs, so no
  layer is written. When it fails, \<open>lastScrollY\<close> becomes the position, the writing
  pass for the position is appended to the log of style writes and stored in the styles,
  the element of every present layer then carries a transform of that pass, and the pass
  is not empty when a layer is present. The test fails whenever the two numbers are finite
  and differ by at least 1. With \<open>lastScrollY = 100\<close>, position 100.5 writes nothing
  and position 101 writes; from 1.2 to 0.2 the computed difference is \<open>-1\<close>, and the
  routine writes.
\<close>

theorem threshold_gates_writes:
  "\<exists>c' w'. updateParallax c w = Inr (c', w') \<and> \<not> ticking c' \<and>
     (numLess (mathAbs (numSub (pageYOffset w) (lastScrollY c))) (Finite 1) \<longrightarrow>
        c' = c\<lparr>ticking := False\<rparr> \<and> w' = w\<lparr>updateRuns := Suc (updateRuns w)\<rparr>) \<and>
     (\<not> numLess (mathAbs (numSub (pageYOffset w) (lastScrollY c))) (Finite 1) \<longrightarrow>
        c' = c\<lparr>lastScrollY := pageYOffset w, ticking := False\<rparr> \<and>
        styleWrites w' = styleWrites w @ layerWrites (elements c) (pageYOffset w) \<and>
        style_transform w' =
          applyWrites (layerWrites (elements c) (pageYOffset w)) (style_transform w) \<and>
        (hasParallaxElements c \<longrightarrow> layerWrites (elements c) (pageYOffset w) \<noteq> []) \<and>
        (\<forall>e. Some e = layerBack (elements c) \<or> Some e = layerMid (elements c)
              \<or> Some e = layerFront (elements c) \<longrightarrow>
           (\<exists>t. (e, t) \<in> set (layerWrites (elements c) (pageYOffset w)) \<and>
              style_transform w' e = Some t))) \<and>
     (\<forall>a b. pageYOffset w = Finite a \<and> lastScrollY c = Finite b \<and> 1 \<le> \<bar>a - b\<bar> \<longrightarrow>
        \<not> numLess (mathAbs (numSub (pageYOffset w) (lastScrollY c))) (Finite 1))"
proof -
  have r: "\<forall>a b. pageYOffset w = Finite a \<and> lastScrollY c = Finite b \<and> 1 \<le> \<bar>a - b\<bar> \<longrightarrow>
        \<not> numLess (mathAbs (numSub (pageYOffset w) (lastScrollY c))) (Finite 1)"
    using threshold_exceeded by simp
  show ?thesis
  proof (cases "numLess (mathAbs (numSub (pageYOffset w) (lastScrollY c))) (Finite 1)")
    case True
    with r show ?thesis by (simp add: updateParallax_skip)
  next
    case False
    have "hasParallaxElements c \<longrightarrow> layerWrites (elements c) (pageYOffset w) \<noteq> []"
      by (simp add: layerWrites_Nil)
    with False r applyWrites_layers [of _ "elements c" "pageYOffset w" "style_transform w"]
    show ?thesis by (simp add: updateParallax_write)
  qed
qed

theorem threshold_gates_writes_witness:
  "numLess (mathAbs (numSub (pageYOffset (midOnlyPage 100.5))
      (lastScrollY (midOnlyController (Finite 100))))) (Finite 1) \<and>
   updateParallax (midOnlyController (Finite 100)) (midOnlyPage 100.5) =
     Inr ((midOnlyController (Finite 100))\<lparr>ticking := False\<rparr>,
          (midOnlyPage 100.5)\<lparr>updateRuns := 1\<rparr>) \<and>
   styleWrites ((midOnlyPage 100.5)\<lparr>updateRuns := 1\<rparr>) = [] \<and>
   pageYOffset (midOnlyPage 101) = Finite 101 \<and> (1::real) \<le> \<bar>101 - 100\<bar> \<and>
   hasParallaxElements (midOnlyController (Finite 100)) \<and>
   (\<exists>c' w'. updateParallax (midOnlyController (Finite 100)) (midOnlyPage 101) = Inr (c', w') \<and>
      \<not> ticking c' \<and> lastScrollY c' = Finite 101 \<and>
      styleWrites w' = [(1, translate3d (Finite 0) (Finite (- 50.5)) (Finite 0))] \<and>
      style_transform w' 1 = Some (translate3d (Finite 0) (Finite (- 50.5)) (Finite 0))) \<and>
   pageYOffset (midOnlyPage 0.2) = Finite (3602879701896397 / 2 ^ 54) \<and>
   toDouble 1.2 = Finite (5404319552844595 / 2 ^ 52) \<and>
   numSub (pageYOffset (midOnlyPage 0.2)) (toDouble 1.2) = Finite (- 1) \<and>
   (\<exists>c' w'. updateParallax (midOnlyController (toDouble 1.2)) (midOnlyPage 0.2) = Inr (c', w') \<and>
      lastScrollY c' = Finite (3602879701896397 / 2 ^ 54) \<and>
      styleWrites w' = [(1, translate3d (Finite 0) (Finite (- 3602879701896397 / 2 ^ 55)) (Finite 0))])"
proof -
  have p: "pageYOffset (midOnlyPage 100.5) = Finite 100.5" "pageYOffset (midOnlyPage 101) = Finite 101"
    "pageYOffset (midOnlyPage 0.2) = Finite (3602879701896397 / 2 ^ 54)"
    "toDouble 1.2 = Finite (5404319552844595 / 2 ^ 52)"
    by (simp_all add: midOnlyPage_def pageLoad_def pageYOffset_def num_eval)
  have h: "hasParallaxElements (midOnlyController (Finite 100))"
    "elements (midOnlyController x) = \<lparr>layerBack = None, layerMid = Some 1, layerFront = None\<rparr>"
    "lastScrollY (midOnlyController x) = x" for x
    by (simp_all add: midOnlyController_def hasParallaxElements_def)
  have s1: "numLess (mathAbs (numSub (Finite 100.5) (Finite 100))) (Finite 1)"
    by (simp add: num_eval)
  have s2: "\<not> numLess (mathAbs (numSub (Finite 101) (Finite 100))) (Finite 1)"
    by (simp add: num_eval)
  have s3: "numSub (Finite (3602879701896397 / 2 ^ 54)) (Finite (5404319552844595 / 2 ^ 52)) = Finite (- 1)"
    by (simp add: num_eval)
  have m1: "numMul (Finite 101) (toDouble (- 0.5)) = Finite (- 50.5)"
    by (simp add: num_eval)
  have m2: "numMul (Finite (3602879701896397 / 2 ^ 54)) (toDouble (- 0.5)) = Finite (- 3602879701896397 / 2 ^ 55)"
    by (simp add: num_eval)
  from threshold_gates_writes [of "midOnlyController (Finite 100)" "midOnlyPage 100.5"] p h s1
  have a: "updateParallax (midOnlyController (Finite 100)) (midOnlyPage 100.5) =
     Inr ((midOnlyController (Finite 100))\<lparr>ticking := False\<rparr>,
          (midOnlyPage 100.5)\<lparr>updateRuns := 1\<rparr>)"
    by (auto simp: midOnlyPage_def pageLoad_def)
  have a': "styleWrites ((midOnlyPage 100.5)\<lparr>updateRuns := 1\<rparr>) = []"
    by (simp add: midOnlyPage_def pageLoad_def)
  from threshold_gates_writes [of "midOnlyController (Finite 100)" "midOnlyPage 101"] p h s2 m1
  have b: "\<exists>c' w'. updateParallax (midOnlyController (Finite 100)) (midOnlyPage 101) = Inr (c', w') \<and>
      \<not> ticking c' \<and> lastScrollY c' = Finite 101 \<and>
      styleWrites w' = [(1, translate3d (Finite 0) (Finite (- 50.5)) (Finite 0))] \<and>
      style_transform w' 1 = Some (translate3d (Finite 0) (Finite (- 50.5)) (Finite 0))"
    by (auto simp: midOnlyPage_def pageLoad_def layerWrites_def layerWrite_def applyWrites_def)
  from threshold_gates_writes [of "midOnlyController (toDouble 1.2)" "midOnlyPage 0.2"] p h s3 m2
  have c: "\<exists>c' w'. updateParallax (midOnlyController (toDouble 1.2)) (midOnlyPage 0.2) = Inr (c', w') \<and>
      lastScrollY c' = Finite (3602879701896397 / 2 ^ 54) \<and>
      styleWrites w' = [(1, translate3d (Finite 0) (Finite (- 3602879701896397 / 2 ^ 55)) (Finite 0))]"
    by (auto simp: midOnlyPage_def pageLoad_def layerWrites_def layerWrite_def)
  from p h s1 s3 a a' b c show ?thesis by simp
qed

text \<open>
  The products are binary64 products, not exact ones: at position 3 the back layer is given
  \<open>-0.6000000000000001\<close> and the front layer \<open>-2.4000000000000004\<close>, where
  three times \<open>-0.2\<close> is \<open>-0.6\<close> and three times \<open>-0.8\<close> is \<open>-2.4\<close>.
\<close>

theorem products_are_rounded:
  "updateParallax (layeredController (Finite 0)) (samplePage 3) =
     Inr ((layeredController (Finite 0))\<lparr>lastScrollY := Finite 3, ticking := False\<rparr>,
          (samplePage 3)\<lparr>updateRuns := 1,
             style_transform :=
               [1 \<mapsto> translate3d (Finite 0) (Finite (- 1351079888211149 / 2251799813685248)) (Finite 0),
                2 \<mapsto> translate3d (Finite 0) (Finite (- 3 / 2)) (Finite 0),
                3 \<mapsto> translate3d (Finite 0) (Finite (- 1351079888211149 / 562949953421312)) (Finite 0)],
             styleWrites :=
               [(1, translate3d (Finite 0) (Finite (- 1351079888211149 / 2251799813685248)) (Finite 0)),
                (2, translate3d (Finite 0) (Finite (- 3 / 2)) (Finite 0)),
                (3, translate3d (Finite 0) (Finite (- 1351079888211149 / 562949953421312)) (Finite 0))],
             writtenAt := [Finite 3, Finite 3, Finite 3]\<rparr>) \<and>
   (- 1351079888211149 / 2251799813685248 :: real) \<noteq> - 0.2 * 3 \<and>
   (- 1351079888211149 / 562949953421312 :: real) \<noteq> - 0.8 * 3"
proof -
  have p: "pageYOffset (samplePage 3) = Finite 3"
    by (simp add: samplePage_def pageLoad_def pageYOffset_def num_eval)
  have t: "\<not> numLess (mathAbs (numSub (Finite 3) (Finite 0))) (Finite 1)"
    by (simp add: num_eval)
  have m: "numMul (Finite 3) (toDouble (- 0.2)) = Finite (- 1351079888211149 / 2251799813685248)"
    "numMul (Finite 3) (toDouble (- 0.5)) = Finite (- 3 / 2)"
    "numMul (Finite 3) (toDouble (- 0.8)) = Finite (- 1351079888211149 / 562949953421312)"
    by (simp_all add: num_eval)
  have "updateParallax (layeredController (Finite 0)) (samplePage 3) =
     Inr ((layeredController (Finite 0))\<lparr>lastScrollY := Finite 3, ticking := False\<rparr>,
          (samplePage 3)\<lparr>updateRuns := 1,
             style_transform :=
               [1 \<mapsto> translate3d (Finite 0) (Finite (- 1351079888211149 / 2251799813685248)) (Finite 0),
                2 \<mapsto> translate3d (Finite 0) (Finite (- 3 / 2)) (Finite 0),
                3 \<mapsto> translate3d (Finite 0) (Finite (- 1351079888211149 / 562949953421312)) (Finite 0)],
             styleWrites :=
               [(1, translate3d (Finite 0) (Finite (- 1351079888211149 / 2251799813685248)) (Finite 0)),
                (2, translate3d (Finite 0) (Finite (- 3 / 2)) (Finite 0)),
                (3, translate3d (Finite 0) (Finite (- 1351079888211149 / 562949953421312)) (Finite 0))],
             writtenAt := [Finite 3, Finite 3, Finite 3]\<rparr>)"
    using p t m
    by (simp add: updateParallax_write layeredController_def layerWrites_def layerWrite_def
        applyWrites_def samplePage_def pageLoad_def numeral_3_eq_3)
  then show ?thesis by simp
qed

text \<open>
  C3 (as the code has it). Whenever the update routine writes at scroll position
  \<open>S\<close>, what it assigns to the present layers is, in order,
  \<open>translate3d(0, S * -0.2, 0)\<close> to the back layer,
  \<open>translate3d(0, S * -0.5, 0)\<close> to the mid layer and
  \<open>translate3d(0, S * -0.8, 0)\<close> to the front layer, and nothing else, where
  \<open>*\<close> is the multiplication of the program and the three constants are the binary64
  values of the literals; a layer's element then carries its transform unless a later
  layer is the same element. For a finite position \<open>s\<close> each product is a finite
  number within \<open>\<bar>m s\<bar> / 2 ^ 52 + 2 powi (- 1075)\<close> of the exact \<open>m s\<close>. The
  statement holds in every state of controller and window: no state holds a multiplier.
\<close>

theorem transforms_proportional:
  assumes "\<not> numLess (mathAbs (numSub (pageYOffset w) (lastScrollY c))) (Finite 1)"
  shows "\<exists>c' w'. updateParallax c w = Inr (c', w') \<and>
     styleWrites w' = styleWrites w
       @ (case layerBack (elements c) of None \<Rightarrow> []
          | Some e \<Rightarrow> [(e, translate3d (Finite 0) (numMul (pageYOffset w) (toDouble (- 0.2))) (Finite 0))])
       @ (case layerMid (elements c) of None \<Rightarrow> []
          | Some e \<Rightarrow> [(e, translate3d (Finite 0) (numMul (pageYOffset w) (toDouble (- 0.5))) (Finite 0))])
       @ (case layerFront (elements c) of None \<Rightarrow> []
          | Some e \<Rightarrow> [(e, translate3d (Finite 0) (numMul (pageYOffset w) (toDouble (- 0.8))) (Finite 0))]) \<and>
     (\<forall>e. layerFront (elements c) = Some e \<longrightarrow>
        style_transform w' e =
          Some (translate3d (Finite 0) (numMul (pageYOffset w) (toDouble (- 0.8))) (Finite 0))) \<and>
     (\<forall>e. layerMid (elements c) = Some e \<and> layerFront (elements c) \<noteq> Some e \<longrightarrow>
        style_transform w' e =
          Some (translate3d (Finite 0) (numMul (pageYOffset w) (toDouble (- 0.5))) (Finite 0))) \<and>
     (\<forall>e. layerBack (elements c) = Some e \<and> layerMid (elements c) \<noteq> Some e
          \<and> layerFront (elements c) \<noteq> Some e \<longrightarrow>
        style_transform w' e =
          Some (translate3d (Finite 0) (numMul (pageYOffset w) (toDouble (- 0.2))) (Finite 0))) \<and>
     (\<forall>s. pageYOffset w = Finite s \<longrightarrow>
        (\<exists>vb vm vf.
           numMul (pageYOffset w) (toDouble (- 0.2)) = Finite vb \<and>
           \<bar>vb - (- 0.2) * s\<bar> \<le> \<bar>(- 0.2) * s\<bar> / 2 ^ 52 + 2 powi (- 1075) \<and>
           numMul (pageYOffset w) (toDouble (- 0.5)) = Finite vm \<and>
           \<bar>vm - (- 0.5) * s\<bar> \<le> \<bar>(- 0.5) * s\<bar> / 2 ^ 52 + 2 powi (- 1075) \<and>
           numMul (pageYOffset w) (toDouble (- 0.8)) = Finite vf \<and>
           \<bar>vf - (- 0.8) * s\<bar> \<le> \<bar>(- 0.8) * s\<bar> / 2 ^ 52 + 2 powi (- 1075)))"
proof -
  have bound: "\<forall>s. pageYOffset w = Finite s \<longrightarrow>
        (\<exists>vb vm vf.
           numMul (pageYOffset w) (toDouble (- 0.2)) = Finite vb \<and>
           \<bar>vb - (- 0.2) * s\<bar> \<le> \<bar>(- 0.2) * s\<bar> / 2 ^ 52 + 2 powi (- 1075) \<and>
           numMul (pageYOffset w) (toDouble (- 0.5)) = Finite vm \<and>
           \<bar>vm - (- 0.5) * s\<bar> \<le> \<bar>(- 0.5) * s\<bar> / 2 ^ 52 + 2 powi (- 1075) \<and>
           numMul (pageYOffset w) (toDouble (- 0.8)) = Finite vf \<and>
           \<bar>vf - (- 0.8) * s\<bar> \<le> \<bar>(- 0.8) * s\<bar> / 2 ^ 52 + 2 powi (- 1075))"
  proof (intro allI impI)
    fix s
    assume s: "pageYOffset w = Finite s"
    then have d: "toDouble (scrollPosition w) = Finite s" by (simp add: pageYOffset_def)
    from back_product [OF d] mid_product [OF d] front_product [OF d] s
    show "\<exists>vb vm vf.
           numMul (pageYOffset w) (toDouble (- 0.2)) = Finite vb \<and>
           \<bar>vb - (- 0.2) * s\<bar> \<le> \<bar>(- 0.2) * s\<bar> / 2 ^ 52 + 2 powi (- 1075) \<and>
           numMul (pageYOffset w) (toDouble (- 0.5)) = Finite vm \<and>
           \<bar>vm - (- 0.5) * s\<bar> \<le> \<bar>(- 0.5) * s\<bar> / 2 ^ 52 + 2 powi (- 1075) \<and>
           numMul (pageYOffset w) (toDouble (- 0.8)) = Finite vf \<and>
           \<bar>vf - (- 0.8) * s\<bar> \<le> \<bar>(- 0.8) * s\<bar> / 2 ^ 52 + 2 powi (- 1075)"
      by (simp only:) blast
  qed
  have main: "\<exists>c' w'. updateParallax c w = Inr (c', w') \<and>
     styleWrites w' = styleWrites w
       @ (case layerBack (elements c) of None \<Rightarrow> []
          | Some e \<Rightarrow> [(e, translate3d (Finite 0) (numMul (pageYOffset w) (toDouble (- 0.2))) (Finite 0))])
       @ (case layerMid (elements c) of None \<Rightarrow> []
          | Some e \<Rightarrow> [(e, translate3d (Finite 0) (numMul (pageYOffset w) (toDouble (- 0.5))) (Finite 0))])
       @ (case layerFront (elements c) of None \<Rightarrow> []
          | Some e \<Rightarrow> [(e, translate3d (Finite 0) (numMul (pageYOffset w) (toDouble (- 0.8))) (Finite 0))]) \<and>
     (\<forall>e. layerFront (elements c) = Some e \<longrightarrow>
        style_transform w' e =
          Some (translate3d (Finite 0) (numMul (pageYOffset w) (toDouble (- 0.8))) (Finite 0))) \<and>
     (\<forall>e. layerMid (elements c) = Some e \<and> layerFront (elements c) \<noteq> Some e \<longrightarrow>
        style_transform w' e =
          Some (translate3d (Finite 0) (numMul (pageYOffset w) (toDouble (- 0.5))) (Finite 0))) \<and>
     (\<forall>e. layerBack (elements c) = Some e \<and> layerMid (elements c) \<noteq> Some e
          \<and> layerFront (elements c) \<noteq> Some e \<longrightarrow>
        style_transform w' e =
          Some (translate3d (Finite 0) (numMul (pageYOffset w) (toDouble (- 0.2))) (Finite 0)))"
    using assms
    by (cases "layerBack (elements c)"; cases "layerMid (elements c)";
        cases "layerFront (elements c)")
       (simp_all add: updateParallax_write layerWrites_def layerWrite_def applyWrites_def)
  from main bound show ?thesis by blast
qed

theorem transforms_proportional_witness:
  "\<not> numLess (mathAbs (numSub (pageYOffset (samplePage 50))
        (lastScrollY (layeredController (Finite 0))))) (Finite 1) \<and>
   (\<exists>c' w'. updateParallax (layeredController (Finite 0)) (samplePage 50) = Inr (c', w') \<and>
      styleWrites w' = [(1, translate3d (Finite 0) (Finite (- 10)) (Finite 0)),
                        (2, translate3d (Finite 0) (Finite (- 25)) (Finite 0)),
                        (3, translate3d (Finite 0) (Finite (- 40)) (Finite 0))] \<and>
      style_transform w' 1 = Some (translate3d (Finite 0) (Finite (- 10)) (Finite 0)) \<and>
      style_transform w' 2 = Some (translate3d (Finite 0) (Finite (- 25)) (Finite 0)) \<and>
      style_transform w' 3 = Some (translate3d (Finite 0) (Finite (- 40)) (Finite 0))) \<and>
   \<not> numLess (mathAbs (numSub (pageYOffset (samplePage 3))
        (lastScrollY (layeredController (Finite 0))))) (Finite 1) \<and>
   pageYOffset (samplePage 3) = Finite 3 \<and>
   numMul (pageYOffset (samplePage 3)) (toDouble (- 0.2)) =
     Finite (- 1351079888211149 / 2251799813685248) \<and>
   \<bar>- 1351079888211149 / 2251799813685248 - (- 0.2) * (3::real)\<bar>
     \<le> \<bar>(- 0.2) * 3\<bar> / 2 ^ 52 + 2 powi (- 1075)"
proof -
  have p: "pageYOffset (samplePage 50) = Finite 50" "pageYOffset (samplePage 3) = Finite 3"
    by (simp_all add: samplePage_def pageLoad_def pageYOffset_def num_eval)
  have l: "lastScrollY (layeredController (Finite 0)) = Finite 0"
    "elements (layeredController (Finite 0)) =
       \<lparr>layerBack = Some 1, layerMid = Some 2, layerFront = Some 3\<rparr>"
    by (simp_all add: layeredController_def)
  have t: "\<not> numLess (mathAbs (numSub (Finite 50) (Finite 0))) (Finite 1)"
    "\<not> numLess (mathAbs (numSub (Finite 3) (Finite 0))) (Finite 1)"
    by (simp_all add: num_eval)
  have m: "numMul (Finite 50) (toDouble (- 0.2)) = Finite (- 10)"
    "numMul (Finite 50) (toDouble (- 0.5)) = Finite (- 25)"
    "numMul (Finite 50) (toDouble (- 0.8)) = Finite (- 40)"
    "numMul (Finite 3) (toDouble (- 0.2)) = Finite (- 1351079888211149 / 2251799813685248)"
    by (simp_all add: num_eval)
  have h50: "\<not> numLess (mathAbs (numSub (pageYOffset (samplePage 50))
        (lastScrollY (layeredController (Finite 0))))) (Finite 1)"
    using p l t by simp
  have h3: "\<not> numLess (mathAbs (numSub (pageYOffset (samplePage 3))
        (lastScrollY (layeredController (Finite 0))))) (Finite 1)"
    using p l t by simp
  from transforms_proportional [OF h50] p l m
  have a: "\<exists>c' w'. updateParallax (layeredController (Finite 0)) (samplePage 50) = Inr (c', w') \<and>
      styleWrites w' = [(1, translate3d (Finite 0) (Finite (- 10)) (Finite 0)),
                        (2, translate3d (Finite 0) (Finite (- 25)) (Finite 0)),
                        (3, translate3d (Finite 0) (Finite (- 40)) (Finite 0))] \<and>
      style_transform w' 1 = Some (translate3d (Finite 0) (Finite (- 10)) (Finite 0)) \<and>
      style_transform w' 2 = Some (translate3d (Finite 0) (Finite (- 25)) (Finite 0)) \<and>
      style_transform w' 3 = Some (translate3d (Finite 0) (Finite (- 40)) (Finite 0))"
    by (auto simp: samplePage_def pageLoad_def)
  from transforms_proportional [OF h3] p(2)
  obtain vb where "numMul (pageYOffset (samplePage 3)) (toDouble (- 0.2)) = Finite vb"
    "\<bar>vb - (- 0.2) * 3\<bar> \<le> \<bar>(- 0.2) * 3\<bar> / 2 ^ 52 + 2 powi (- 1075)"
    by blast
  with p(2) m(4) have b: "\<bar>- 1351079888211149 / 2251799813685248 - (- 0.2) * (3::real)\<bar>
     \<le> \<bar>(- 0.2) * 3\<bar> / 2 ^ 52 + 2 powi (- 1075)"
    by simp
  from h50 h3 a b p(2) m(4) show ?thesis by simp
qed

text \<open>
  C7. For every combination of present and absent layers the update routine returns
  normally: the assignment to a null layer, which would throw, is never reached. Every
  write of the run goes to an element the controller holds as a layer, and the transform
  of every other element is left as it was.
\<close>

theorem update_never_raises:
  "\<exists>c' w'. updateParallax c w = Inr (c', w') \<and>
     (\<forall>(e, t) \<in> set (drop (length (styleWrites w)) (styleWrites w')).
        Some e = layerBack (elements c) \<or> Some e = layerMid (elements c)
        \<or> Some e = layerFront (elements c)) \<and>
     (\<forall>e. Some e \<noteq> layerBack (elements c) \<and> Some e \<noteq> layerMid (elements c)
          \<and> Some e \<noteq> layerFront (elements c) \<longrightarrow>
        style_transform w' e = style_transform w e)"
proof (cases "numLess (mathAbs (numSub (pageYOffset w) (lastScrollY c))) (Finite 1)")
  case True
  then show ?thesis by (simp add: updateParallax_skip)
next
  case False
  have "\<And>e. Some e \<noteq> layerBack (elements c) \<and> Some e \<noteq> layerMid (elements c)
          \<and> Some e \<noteq> layerFront (elements c) \<Longrightarrow>
        e \<notin> fst ` set (layerWrites (elements c) (pageYOffset w))"
    using layerWrites_elements by fastforce
  with False show ?thesis
    by (auto simp: updateParallax_write applyWrites_other dest: layerWrites_elements)
qed

theorem update_never_raises_witness:
  "\<exists>c' w'. updateParallax (midOnlyController (Finite 0)) (midOnlyPage 1000) = Inr (c', w') \<and>
     styleWrites w' = [(1, translate3d (Finite 0) (Finite (- 500)) (Finite 0))] \<and>
     Some 0 \<noteq> layerBack (elements (midOnlyController (Finite 0))) \<and>
     Some 0 \<noteq> layerMid (elements (midOnlyController (Finite 0))) \<and>
     Some 0 \<noteq> layerFront (elements (midOnlyController (Finite 0))) \<and>
     style_transform w' 0 = style_transform (midOnlyPage 1000) 0"
proof -
  have p: "pageYOffset (midOnlyPage 1000) = Finite 1000"
    by (simp add: midOnlyPage_def pageLoad_def pageYOffset_def num_eval)
  have t: "\<not> numLess (mathAbs (numSub (Finite 1000) (Finite 0))) (Finite 1)"
    by (simp add: num_eval)
  have m: "numMul (Finite 1000) (toDouble (- 0.5)) = Finite (- 500)"
    by (simp add: num_eval)
  from update_never_raises [of "midOnlyController (Finite 0)" "midOnlyPage 1000"] p t m
  show ?thesis
    by (auto simp: midOnlyPage_def midOnlyController_def pageLoad_def updateParallax_write
        layerWrites_def layerWrite_def)
qed

section \<open>Coalescing and the threshold baseline\<close>

text \<open>
  C1. In every state a page with an inline controller can reach from page load, the frame
  queue holds at most one request, and it holds one exactly when the pending flag is set.
  There, the scroll handler does nothing while the flag is set; while it is clear it sets
  the flag and queues exactly one request; the update routine returns with the flag
  clear. Hence, while the controller is subscribed, any burst of scroll activity with at
  least one notification, followed by a frame, runs the update routine exactly once.
\<close>

theorem one_update_outstanding:
  "\<exists>c w. lifetime (pageLoad doc st y width rm) evs = Inr (c, w) \<and>
     length (rafQueue w) \<le> 1 \<and> (rafQueue w \<noteq> []) = ticking c \<and>
     (ticking c \<longrightarrow> handleScroll c w = Inr (c, w)) \<and>
     (\<not> ticking c \<longrightarrow>
        handleScroll c w = Inr (c\<lparr>ticking := True\<rparr>, w\<lparr>rafQueue := [updateParallax_ref c]\<rparr>)) \<and>
     (\<exists>c' w'. updateParallax c w = Inr (c', w') \<and> \<not> ticking c') \<and>
     (list_all isScrollActivity burst \<and> ScrollEvent \<in> set burst \<and> scrollListeners w \<noteq> [] \<longrightarrow>
        (\<exists>c' w'. run (burst @ [Frame]) (c, w) = Inr (c', w') \<and>
           updateRuns w' = Suc (updateRuns w) \<and> rafQueue w' = [] \<and> \<not> ticking c'))"
proof -
  from lifetime_coherent [of doc st y width rm evs] obtain c w
    where l: "lifetime (pageLoad doc st y width rm) evs = Inr (c, w)" and co: "coherent (c, w)"
    by auto
  from co have q: "rafQueue w = (if ticking c then [updateParallax_ref c] else [])"
    by (simp add: coherent_def)
  have a: "length (rafQueue w) \<le> 1" "(rafQueue w \<noteq> []) = ticking c"
    using q by simp_all
  have b: "ticking c \<longrightarrow> handleScroll c w = Inr (c, w)"
    by (simp add: handleScroll_def)
  have c: "\<not> ticking c \<longrightarrow>
        handleScroll c w = Inr (c\<lparr>ticking := True\<rparr>, w\<lparr>rafQueue := [updateParallax_ref c]\<rparr>)"
    using q by (simp add: handleScroll_def requestAnimationFrame_def)
  have d: "\<exists>c' w'. updateParallax c w = Inr (c', w') \<and> \<not> ticking c'"
    by (cases "numLess (mathAbs (numSub (pageYOffset w) (lastScrollY c))) (Finite 1)")
       (simp_all add: updateParallax_skip updateParallax_write)
  have e: "\<exists>c' w'. run (burst @ [Frame]) (c, w) = Inr (c', w') \<and>
           updateRuns w' = Suc (updateRuns w) \<and> rafQueue w' = [] \<and> \<not> ticking c'"
    if h: "list_all isScrollActivity burst" "ScrollEvent \<in> set burst" "scrollListeners w \<noteq> []"
  proof -
    from burst_run [OF co h(1)] h obtain c1 w1 where
      r: "run burst (c, w) = Inr (c1, w1)" "coherent (c1, w1)" "updateRuns w1 = updateRuns w"
        "ticking c1"
      by auto
    from r(2,4) have "rafQueue w1 = [updateParallax_ref c1]" by (simp add: coherent_def)
    with frame_step [OF r(2)] r show ?thesis by (auto simp: run_append)
  qed
  from l a b c d e show ?thesis by blast
qed

theorem one_update_outstanding_witness:
  "(\<exists>c w. lifetime (samplePage 0) [] = Inr (c, w) \<and> \<not> ticking c \<and> rafQueue w = [] \<and>
      handleScroll c w = Inr (c\<lparr>ticking := True\<rparr>, w\<lparr>rafQueue := [updateParallax_ref c]\<rparr>) \<and>
      list_all isScrollActivity [ScrollEvent, ScrollTo 40, ScrollEvent, ScrollEvent] \<and>
      ScrollEvent \<in> set [ScrollEvent, ScrollTo 40, ScrollEvent, ScrollEvent] \<and>
      scrollListeners w \<noteq> [] \<and>
      (\<exists>c' w'. run ([ScrollEvent, ScrollTo 40, ScrollEvent, ScrollEvent] @ [Frame]) (c, w)
                  = Inr (c', w') \<and>
         updateRuns w = 1 \<and> updateRuns w' = 2 \<and> rafQueue w' = [] \<and> \<not> ticking c')) \<and>
   (\<exists>c w. lifetime (samplePage 0) [ScrollTo 300, ScrollEvent] = Inr (c, w) \<and> ticking c \<and>
      length (rafQueue w) = 1 \<and> handleScroll c w = Inr (c, w))"
proof -
  have z: "toDouble 0 = Finite 0" by (simp add: toDouble_def round64_def)
  let ?doc = "[(0, [''hero'']), (1, [''layer'', ''layer-back'']), (2, [''layer-mid'']),
               (3, [''layer-front''])]"
  let ?burst = "[ScrollEvent, ScrollTo 40, ScrollEvent, ScrollEvent]"
  from one_update_outstanding [of ?doc Map.empty 0 1280 False "[]" ?burst]
  obtain c w where a: "lifetime (samplePage 0) [] = Inr (c, w)"
    and a1: "(rafQueue w \<noteq> []) = ticking c"
    and a2: "\<not> ticking c \<longrightarrow>
        handleScroll c w = Inr (c\<lparr>ticking := True\<rparr>, w\<lparr>rafQueue := [updateParallax_ref c]\<rparr>)"
    and a3: "list_all isScrollActivity ?burst \<and> ScrollEvent \<in> set ?burst \<and> scrollListeners w \<noteq> [] \<longrightarrow>
        (\<exists>c' w'. run (?burst @ [Frame]) (c, w) = Inr (c', w') \<and>
           updateRuns w' = Suc (updateRuns w) \<and> rafQueue w' = [] \<and> \<not> ticking c')"
    unfolding samplePage_def by blast
  from a have b: "\<not> ticking c" "scrollListeners w \<noteq> []" "updateRuns w = 1"
    using z by (auto simp: samplePage_def run_defs)
  have first: "\<exists>c w. lifetime (samplePage 0) [] = Inr (c, w) \<and> \<not> ticking c \<and> rafQueue w = [] \<and>
      handleScroll c w = Inr (c\<lparr>ticking := True\<rparr>, w\<lparr>rafQueue := [updateParallax_ref c]\<rparr>) \<and>
      list_all isScrollActivity ?burst \<and> ScrollEvent \<in> set ?burst \<and>
      scrollListeners w \<noteq> [] \<and>
      (\<exists>c' w'. run (?burst @ [Frame]) (c, w) = Inr (c', w') \<and>
         updateRuns w = 1 \<and> updateRuns w' = 2 \<and> rafQueue w' = [] \<and> \<not> ticking c')"
  proof -
    from a3 b(2) obtain c' w' where "run (?burst @ [Frame]) (c, w) = Inr (c', w')"
      "updateRuns w' = Suc (updateRuns w)" "rafQueue w' = []" "\<not> ticking c'"
      by auto
    with a a1 a2 b show ?thesis by (intro exI [of _ c] exI [of _ w]) auto
  qed
  from one_update_outstanding [of ?doc Map.empty 0 1280 False "[ScrollTo 300, ScrollEvent]" "[]"]
  obtain c2 w2 where d: "lifetime (samplePage 0) [ScrollTo 300, ScrollEvent] = Inr (c2, w2)"
    and d1: "length (rafQueue w2) \<le> 1" "(rafQueue w2 \<noteq> []) = ticking c2"
    and d2: "ticking c2 \<longrightarrow> handleScroll c2 w2 = Inr (c2, w2)"
    unfolding samplePage_def by blast
  from d have "ticking c2"
    using z by (auto simp: samplePage_def run_defs)
  with d d1 d2 have "length (rafQueue w2) = 1" "handleScroll c2 w2 = Inr (c2, w2)"
    by (auto simp: le_Suc_eq)
  with d \<open>ticking c2\<close> first show ?thesis by blast
qed

text \<open>
  C10. In every reachable state, either nothing has been written and
  \<open>lastScrollY = 0\<close>, or \<open>lastScrollY\<close> is the value \<open>window.pageYOffset\<close>
  had at the most recent style write, and the log of writes ends with the writing pass for
  it. An update within the threshold leaves \<open>lastScrollY\<close> and the logs alone; an
  update past it writes at the current position and moves \<open>lastScrollY\<close> there; and
  an update is past the threshold whenever the position differs from \<open>lastScrollY\<close>
  by at least 1. So sub-unit steps accumulate against the last written position: from 100,
  the steps to 100.5 and to 101 are each below 1, and the second one writes.
\<close>

theorem lastScrollY_is_last_written_position:
  "\<exists>c w. lifetime (pageLoad doc st y width rm) evs = Inr (c, w) \<and>
     length (writtenAt w) = length (styleWrites w) \<and>
     (styleWrites w = [] \<and> lastScrollY c = Finite 0 \<or>
      writtenAt w \<noteq> [] \<and> last (writtenAt w) = lastScrollY c \<and>
      layerWrites (elements c) (lastScrollY c) \<noteq> [] \<and>
      (\<exists>ws. styleWrites w = ws @ layerWrites (elements c) (lastScrollY c))) \<and>
     (numLess (mathAbs (numSub (pageYOffset w) (lastScrollY c))) (Finite 1) \<longrightarrow>
        (\<exists>c' w'. updateParallax c w = Inr (c', w') \<and> lastScrollY c' = lastScrollY c \<and>
           styleWrites w' = styleWrites w \<and> writtenAt w' = writtenAt w)) \<and>
     (\<not> numLess (mathAbs (numSub (pageYOffset w) (lastScrollY c))) (Finite 1)
        \<and> hasParallaxElements c \<longrightarrow>
        (\<exists>c' w'. updateParallax c w = Inr (c', w') \<and> lastScrollY c' = pageYOffset w \<and>
           layerWrites (elements c) (pageYOffset w) \<noteq> [] \<and>
           styleWrites w' = styleWrites w @ layerWrites (elements c) (pageYOffset w) \<and>
           length (writtenAt w') = length (styleWrites w') \<and>
           last (writtenAt w') = pageYOffset w)) \<and>
     (\<forall>a b. pageYOffset w = Finite a \<and> lastScrollY c = Finite b \<and> 1 \<le> \<bar>a - b\<bar> \<longrightarrow>
        \<not> numLess (mathAbs (numSub (pageYOffset w) (lastScrollY c))) (Finite 1))"
proof -
  from lifetime_coherent [of doc st y width rm evs] obtain c w
    where l: "lifetime (pageLoad doc st y width rm) evs = Inr (c, w)" and co: "coherent (c, w)"
    by auto
  from co have len: "length (writtenAt w) = length (styleWrites w)"
    by (simp add: coherent_def)
  from co have a: "styleWrites w = [] \<and> lastScrollY c = Finite 0 \<or>
      writtenAt w \<noteq> [] \<and> last (writtenAt w) = lastScrollY c \<and>
      layerWrites (elements c) (lastScrollY c) \<noteq> [] \<and>
      (\<exists>ws. styleWrites w = ws @ layerWrites (elements c) (lastScrollY c))"
    by (auto simp: coherent_def layerWrites_Nil)
  have b: "numLess (mathAbs (numSub (pageYOffset w) (lastScrollY c))) (Finite 1) \<longrightarrow>
        (\<exists>c' w'. updateParallax c w = Inr (c', w') \<and> lastScrollY c' = lastScrollY c \<and>
           styleWrites w' = styleWrites w \<and> writtenAt w' = writtenAt w)"
    by (simp add: updateParallax_skip)
  have d: "\<not> numLess (mathAbs (numSub (pageYOffset w) (lastScrollY c))) (Finite 1)
        \<and> hasParallaxElements c \<longrightarrow>
        (\<exists>c' w'. updateParallax c w = Inr (c', w') \<and> lastScrollY c' = pageYOffset w \<and>
           layerWrites (elements c) (pageYOffset w) \<noteq> [] \<and>
           styleWrites w' = styleWrites w @ layerWrites (elements c) (pageYOffset w) \<and>
           length (writtenAt w') = length (styleWrites w') \<and>
           last (writtenAt w') = pageYOffset w)"
    using len by (simp add: updateParallax_write layerWrites_Nil)
  have e: "\<forall>a b. pageYOffset w = Finite a \<and> lastScrollY c = Finite b \<and> 1 \<le> \<bar>a - b\<bar> \<longrightarrow>
        \<not> numLess (mathAbs (numSub (pageYOffset w) (lastScrollY c))) (Finite 1)"
    using threshold_exceeded by simp
  from l len a b d e show ?thesis by blast
qed

theorem lastScrollY_is_last_written_position_witness:
  "(\<exists>c w. lifetime (midOnlyPage 0)
       [ScrollTo 100, ScrollEvent, Frame, ScrollTo 100.5, ScrollEvent] = Inr (c, w) \<and>
      lastScrollY c = Finite 100 \<and> last (writtenAt w) = Finite 100 \<and>
      styleWrites w = [(1, translate3d (Finite 0) (Finite (- 50)) (Finite 0))] \<and>
      numLess (mathAbs (numSub (pageYOffset w) (lastScrollY c))) (Finite 1) \<and>
      (\<exists>c' w'. updateParallax c w = Inr (c', w') \<and> lastScrollY c' = Finite 100 \<and>
         styleWrites w' = styleWrites w)) \<and>
   (\<exists>c w. lifetime (midOnlyPage 0)
       [ScrollTo 100, ScrollEvent, Frame, ScrollTo 100.5, ScrollEvent, Frame,
        ScrollTo 101, ScrollEvent] = Inr (c, w) \<and>
      lastScrollY c = Finite 100 \<and> pageYOffset w = Finite 101 \<and> (1::real) \<le> \<bar>101 - 100\<bar> \<and>
      \<not> numLess (mathAbs (numSub (pageYOffset w) (lastScrollY c))) (Finite 1) \<and>
      hasParallaxElements c \<and>
      (\<exists>c' w'. updateParallax c w = Inr (c', w') \<and> lastScrollY c' = Finite 101 \<and>
         last (writtenAt w') = Finite 101 \<and>
         styleWrites w' = [(1, translate3d (Finite 0) (Finite (- 50)) (Finite 0)),
                           (1, translate3d (Finite 0) (Finite (- 50.5)) (Finite 0))])) \<and>
   (\<exists>c w. lifetime (midOnlyPage 0)
       [ScrollTo 1.2, ScrollEvent, Frame, ScrollTo 0.2, ScrollEvent] = Inr (c, w) \<and>
      lastScrollY c = Finite (5404319552844595 / 2 ^ 52) \<and>
      pageYOffset w = Finite (3602879701896397 / 2 ^ 54) \<and>
      numSub (pageYOffset w) (lastScrollY c) = Finite (- 1) \<and>
      \<not> numLess (mathAbs (numSub (pageYOffset w) (lastScrollY c))) (Finite 1) \<and>
      hasParallaxElements c \<and>
      (\<exists>c' w'. updateParallax c w = Inr (c', w') \<and>
         lastScrollY c' = Finite (3602879701896397 / 2 ^ 54) \<and>
         last (writtenAt w') = Finite (3602879701896397 / 2 ^ 54)))"
proof -
  let ?doc = "[(0, [''hero'']), (1, [''layer-mid''])]"
  let ?e1 = "[ScrollTo 100, ScrollEvent, Frame, ScrollTo 100.5, ScrollEvent]"
  let ?e2 = "[ScrollTo 100, ScrollEvent, Frame, ScrollTo 100.5, ScrollEvent, Frame,
        ScrollTo 101, ScrollEvent]"
  let ?e3 = "[ScrollTo 1.2, ScrollEvent, Frame, ScrollTo 0.2, ScrollEvent]"
  have n: "toDouble 1.2 = Finite (5404319552844595 / 2 ^ 52)"
    "toDouble 0.2 = Finite (3602879701896397 / 2 ^ 54)"
    "toDouble (- 5404319552844595 / 2 ^ 53) = Finite (- 5404319552844595 / 2 ^ 53)"
    "toDouble (5404319552844595 / 2 ^ 52) = Finite (5404319552844595 / 2 ^ 52)"
    "toDouble (3602879701896397 / 2 ^ 54 - 5404319552844595 / 2 ^ 52) = Finite (- 1)"
    by (simp_all add: num_eval)
  have v1: "\<exists>c w. lifetime (midOnlyPage 0) ?e1 = Inr (c, w) \<and>
      lastScrollY c = Finite 100 \<and> last (writtenAt w) = Finite 100 \<and>
      styleWrites w = [(1, translate3d (Finite 0) (Finite (- 50)) (Finite 0))] \<and>
      numLess (mathAbs (numSub (pageYOffset w) (lastScrollY c))) (Finite 1)"
    by (simp add: midOnlyPage_def run_defs)
  have v2: "\<exists>c w. lifetime (midOnlyPage 0) ?e2 = Inr (c, w) \<and>
      lastScrollY c = Finite 100 \<and> pageYOffset w = Finite 101 \<and>
      \<not> numLess (mathAbs (numSub (pageYOffset w) (lastScrollY c))) (Finite 1) \<and>
      hasParallaxElements c \<and>
      styleWrites w @ layerWrites (elements c) (pageYOffset w) =
        [(1, translate3d (Finite 0) (Finite (- 50)) (Finite 0)),
         (1, translate3d (Finite 0) (Finite (- 50.5)) (Finite 0))]"
    by (simp add: midOnlyPage_def run_defs layerWrites_def layerWrite_def)
  have v3: "\<exists>c w. lifetime (midOnlyPage 0) ?e3 = Inr (c, w) \<and>
      lastScrollY c = Finite (5404319552844595 / 2 ^ 52) \<and>
      pageYOffset w = Finite (3602879701896397 / 2 ^ 54) \<and>
      numSub (pageYOffset w) (lastScrollY c) = Finite (- 1) \<and>
      \<not> numLess (mathAbs (numSub (pageYOffset w) (lastScrollY c))) (Finite 1) \<and>
      hasParallaxElements c"
    using n by (simp add: midOnlyPage_def run_defs)
  from lastScrollY_is_last_written_position [of ?doc Map.empty 0 1280 False ?e1]
  obtain c w where a: "lifetime (midOnlyPage 0) ?e1 = Inr (c, w)"
    and a1: "numLess (mathAbs (numSub (pageYOffset w) (lastScrollY c))) (Finite 1) \<longrightarrow>
        (\<exists>c' w'. updateParallax c w = Inr (c', w') \<and> lastScrollY c' = lastScrollY c \<and>
           styleWrites w' = styleWrites w \<and> writtenAt w' = writtenAt w)"
    unfolding midOnlyPage_def by blast
  from v1 a a1 have first: "\<exists>c w. lifetime (midOnlyPage 0) ?e1 = Inr (c, w) \<and>
      lastScrollY c = Finite 100 \<and> last (writtenAt w) = Finite 100 \<and>
      styleWrites w = [(1, translate3d (Finite 0) (Finite (- 50)) (Finite 0))] \<and>
      numLess (mathAbs (numSub (pageYOffset w) (lastScrollY c))) (Finite 1) \<and>
      (\<exists>c' w'. updateParallax c w = Inr (c', w') \<and> lastScrollY c' = Finite 100 \<and>
         styleWrites w' = styleWrites w)"
    by (intro exI [of _ c] exI [of _ w]) auto
  from lastScrollY_is_last_written_position [of ?doc Map.empty 0 1280 False ?e2]
  obtain c2 w2 where d: "lifetime (midOnlyPage 0) ?e2 = Inr (c2, w2)"
    and d1: "\<not> numLess (mathAbs (numSub (pageYOffset w2) (lastScrollY c2))) (Finite 1)
        \<and> hasParallaxElements c2 \<longrightarrow>
        (\<exists>c' w'. updateParallax c2 w2 = Inr (c', w') \<and> lastScrollY c' = pageYOffset w2 \<and>
           layerWrites (elements c2) (pageYOffset w2) \<noteq> [] \<and>
           styleWrites w' = styleWrites w2 @ layerWrites (elements c2) (pageYOffset w2) \<and>
           length (writtenAt w') = length (styleWrites w') \<and>
           last (writtenAt w') = pageYOffset w2)"
    unfolding midOnlyPage_def by blast
  from v2 d d1 have second: "\<exists>c w. lifetime (midOnlyPage 0) ?e2 = Inr (c, w) \<and>
      lastScrollY c = Finite 100 \<and> pageYOffset w = Finite 101 \<and> (1::real) \<le> \<bar>101 - 100\<bar> \<and>
      \<not> numLess (mathAbs (numSub (pageYOffset w) (lastScrollY c))) (Finite 1) \<and>
      hasParallaxElements c \<and>
      (\<exists>c' w'. updateParallax c w = Inr (c', w') \<and> lastScrollY c' = Finite 101 \<and>
         last (writtenAt w') = Finite 101 \<and>
         styleWrites w' = [(1, translate3d (Finite 0) (Finite (- 50)) (Finite 0)),
                           (1, translate3d (Finite 0) (Finite (- 50.5)) (Finite 0))])"
    by (intro exI [of _ c2] exI [of _ w2]) auto
  from lastScrollY_is_last_written_position [of ?doc Map.empty 0 1280 False ?e3]
  obtain c3 w3 where g: "lifetime (midOnlyPage 0) ?e3 = Inr (c3, w3)"
    and g1: "\<not> numLess (mathAbs (numSub (pageYOffset w3) (lastScrollY c3))) (Finite 1)
        \<and> hasParallaxElements c3 \<longrightarrow>
        (\<exists>c' w'. updateParallax c3 w3 = Inr (c', w') \<and> lastScrollY c' = pageYOffset w3 \<and>
           layerWrites (elements c3) (pageYOffset w3) \<noteq> [] \<and>
           styleWrites w' = styleWrites w3 @ layerWrites (elements c3) (pageYOffset w3) \<and>
           length (writtenAt w') = length (styleWrites w') \<and>
           last (writtenAt w') = pageYOffset w3)"
    unfolding midOnlyPage_def by blast
  from v3 g g1 have third: "\<exists>c w. lifetime (midOnlyPage 0) ?e3 = Inr (c, w) \<and>
      lastScrollY c = Finite (5404319552844595 / 2 ^ 52) \<and>
      pageYOffset w = Finite (3602879701896397 / 2 ^ 54) \<and>
      numSub (pageYOffset w) (lastScrollY c) = Finite (- 1) \<and>
      \<not> numLess (mathAbs (numSub (pageYOffset w) (lastScrollY c))) (Finite 1) \<and>
      hasParallaxElements c \<and>
      (\<exists>c' w'. updateParallax c w = Inr (c', w') \<and>
         lastScrollY c' = Finite (3602879701896397 / 2 ^ 54) \<and>
         last (writtenAt w') = Finite (3602879701896397 / 2 ^ 54))"
    by (intro exI [of _ c3] exI [of _ w3]) auto
  from first second third show ?thesis by blast
qed

section \<open>Construction\<close>

text \<open>
  C4. On a window whose document has no element of class \<open>layer-back\<close>,
  \<open>layer-mid\<close> or \<open>layer-front\<close>, the constructor returns the freshly
  initialised controller and the window it was given: no listener is added, no frame is
  requested, no function is bound, no style is written, the update routine does not run.
\<close>

theorem inert_construction:
  assumes "\<not> layerPresent (document w)"
  shows "constructor w =
     Inr (\<lparr>elements = \<lparr>layerBack = None, layerMid = None, layerFront = None\<rparr>,
           ticking = False, lastScrollY = Finite 0,
           handleScroll_ref = Unbound MainJs HandleScroll,
           updateParallax_ref = Unbound MainJs UpdateParallax,
           options = None\<rparr>, w)"
  using assms
  by (simp add: layerPresent_iff constructor_def init_def hasParallaxElements_def)

theorem inert_construction_witness:
  "\<not> layerPresent (document (plainPage 1280 False)) \<and>
   constructor (plainPage 1280 False) =
     Inr (\<lparr>elements = \<lparr>layerBack = None, layerMid = None, layerFront = None\<rparr>,
           ticking = False, lastScrollY = Finite 0,
           handleScroll_ref = Unbound MainJs HandleScroll,
           updateParallax_ref = Unbound MainJs UpdateParallax,
           options = None\<rparr>, plainPage 1280 False) \<and>
   scrollListeners (plainPage 1280 False) = [] \<and>
   styleWrites (plainPage 1280 False) = [] \<and>
   rafQueue (plainPage 1280 False) = []"
proof -
  have h: "\<not> layerPresent (document (plainPage 1280 False))"
    by (simp add: plainPage_def pageLoad_def layerPresent_def)
  show ?thesis
    using h inert_construction [OF h] by (simp add: plainPage_def pageLoad_def)
qed

text \<open>
  The initial update is the ordinary update routine, threshold included: constructed at
  scroll position 0.5 on a page with a mid layer, the controller subscribes and writes no
  transform.
\<close>

theorem initial_update_skipped_near_top:
  "constructor (midOnlyPage 0.5) =
     Inr (\<lparr>elements = \<lparr>layerBack = None, layerMid = Some 1, layerFront = None\<rparr>,
           ticking = False, lastScrollY = Finite 0,
           handleScroll_ref = Bound 0 MainJs HandleScroll,
           updateParallax_ref = Bound 1 MainJs UpdateParallax,
           options = None\<rparr>,
          \<lparr>document = [(0, [''hero'']), (1, [''layer-mid''])], scrollPosition = 0.5,
           innerWidth = 1280, reducedMotionQuery = False, style_transform = Map.empty,
           scrollListeners = [(Bound 0 MainJs HandleScroll, True)], rafQueue = [],
           nextFn = 2, styleWrites = [], writtenAt = [], updateRuns = 1\<rparr>)"
  by (simp add: midOnlyPage_def run_defs)

text \<open>
  C5 (as the code has it). When a layer is present, construction binds the handler,
  subscribes it to scroll and runs the update routine once, before any notification. That
  run is gated like every other, against \<open>lastScrollY = 0\<close>: when the test
  \<open>Math.abs(scrolled - 0) < 1\<close> fails, every present layer is written with its
  multiple of the position; when it holds, no layer is written and the styles stay as they
  were. For a finite position \<open>s\<close> the test is \<open>\<bar>s\<bar> < 1\<close>.
\<close>

theorem construction_subscribes_and_updates_past_threshold:
  assumes "layerPresent (document w)"
  shows "\<exists>c w'. constructor w = Inr (c, w') \<and>
     elements c = \<lparr>layerBack = querySelector ''layer-back'' (document w),
                   layerMid = querySelector ''layer-mid'' (document w),
                   layerFront = querySelector ''layer-front'' (document w)\<rparr> \<and>
     handleScroll_ref c = Bound (nextFn w) MainJs HandleScroll \<and>
     handleScroll_ref c \<in> fst ` set (scrollListeners w') \<and>
     updateRuns w' = Suc (updateRuns w) \<and> rafQueue w' = rafQueue w \<and> \<not> ticking c \<and>
     (numLess (mathAbs (numSub (pageYOffset w) (Finite 0))) (Finite 1) \<longrightarrow>
        lastScrollY c = Finite 0 \<and> styleWrites w' = styleWrites w \<and>
        style_transform w' = style_transform w) \<and>
     (\<not> numLess (mathAbs (numSub (pageYOffset w) (Finite 0))) (Finite 1) \<longrightarrow>
        lastScrollY c = pageYOffset w \<and>
        layerWrites (elements c) (pageYOffset w) \<noteq> [] \<and>
        styleWrites w' = styleWrites w @ layerWrites (elements c) (pageYOffset w) \<and>
        style_transform w' =
          applyWrites (layerWrites (elements c) (pageYOffset w)) (style_transform w)) \<and>
     (\<forall>s. pageYOffset w = Finite s \<longrightarrow>
        numLess (mathAbs (numSub (pageYOffset w) (Finite 0))) (Finite 1) = (\<bar>s\<bar> < 1))"
proof -
  define els where "els = \<lparr>layerBack = querySelector ''layer-back'' (document w),
                   layerMid = querySelector ''layer-mid'' (document w),
                   layerFront = querySelector ''layer-front'' (document w)\<rparr>"
  define c1 where "c1 = \<lparr>elements = els, ticking = False, lastScrollY = Finite 0,
     handleScroll_ref = Bound (nextFn w) MainJs HandleScroll,
     updateParallax_ref = Bound (Suc (nextFn w)) MainJs UpdateParallax,
     options = None\<rparr>"
  define w2 where "w2 = addEventListener (Bound (nextFn w) MainJs HandleScroll) True
     (w\<lparr>nextFn := Suc (Suc (nextFn w))\<rparr>)"
  from assms have has: "hasParallaxElements c1"
    by (simp add: layerPresent_iff hasParallaxElements_def c1_def els_def)
  then have ctor: "constructor w = updateParallax c1 w2"
    by (simp add: constructor_def init_def hasParallaxElements_def bindFn_def c1_def els_def
        w2_def)
  have w2: "pageYOffset w2 = pageYOffset w" "styleWrites w2 = styleWrites w"
    "style_transform w2 = style_transform w" "updateRuns w2 = updateRuns w"
    "rafQueue w2 = rafQueue w"
    "Bound (nextFn w) MainJs HandleScroll \<in> fst ` set (scrollListeners w2)"
    by (auto simp: w2_def addEventListener_def)
  have l: "lastScrollY c1 = Finite 0" by (simp add: c1_def)
  have fin: "\<forall>s. pageYOffset w = Finite s \<longrightarrow>
        numLess (mathAbs (numSub (pageYOffset w) (Finite 0))) (Finite 1) = (\<bar>s\<bar> < 1)"
    using threshold_from_zero [of "scrollPosition w"] by (simp add: pageYOffset_def)
  show ?thesis
  proof (cases "numLess (mathAbs (numSub (pageYOffset w) (Finite 0))) (Finite 1)")
    case True
    with w2 l have "updateParallax c1 w2 =
        Inr (c1\<lparr>ticking := False\<rparr>, w2\<lparr>updateRuns := Suc (updateRuns w2)\<rparr>)"
      by (simp add: updateParallax_skip)
    with ctor True w2 fin show ?thesis by (simp add: c1_def els_def)
  next
    case False
    with w2 l have "updateParallax c1 w2 =
        Inr (c1\<lparr>lastScrollY := pageYOffset w2, ticking := False\<rparr>,
          w2\<lparr>updateRuns := Suc (updateRuns w2),
            style_transform := applyWrites (layerWrites (elements c1) (pageYOffset w2)) (style_transform w2),
            styleWrites := styleWrites w2 @ layerWrites (elements c1) (pageYOffset w2),
            writtenAt := writtenAt w2
              @ replicate (length (layerWrites (elements c1) (pageYOffset w2))) (pageYOffset w2)\<rparr>)"
      by (simp add: updateParallax_write)
    moreover from has have "layerWrites (elements c1) (pageYOffset w) \<noteq> []"
      by (simp add: layerWrites_Nil)
    ultimately show ?thesis using ctor False w2 fin by (simp add: c1_def els_def)
  qed
qed

theorem construction_subscribes_and_updates_past_threshold_witness:
  "layerPresent (document (samplePage 120)) \<and>
   \<not> numLess (mathAbs (numSub (pageYOffset (samplePage 120)) (Finite 0))) (Finite 1) \<and>
   pageYOffset (samplePage 120) = Finite 120 \<and>
   (\<exists>c w'. constructor (samplePage 120) = Inr (c, w') \<and>
      scrollListeners w' = [(handleScroll_ref c, True)] \<and> lastScrollY c = Finite 120 \<and>
      styleWrites w' = [(1, translate3d (Finite 0) (Finite (- 24)) (Finite 0)),
                        (2, translate3d (Finite 0) (Finite (- 60)) (Finite 0)),
                        (3, translate3d (Finite 0) (Finite (- 96)) (Finite 0))]) \<and>
   layerPresent (document (midOnlyPage 0.5)) \<and>
   numLess (mathAbs (numSub (pageYOffset (midOnlyPage 0.5)) (Finite 0))) (Finite 1) \<and>
   pageYOffset (midOnlyPage 0.5) = Finite 0.5 \<and>
   (\<exists>c w'. constructor (midOnlyPage 0.5) = Inr (c, w') \<and>
      scrollListeners w' = [(handleScroll_ref c, True)] \<and> lastScrollY c = Finite 0 \<and>
      styleWrites w' = [] \<and> style_transform w' = style_transform (midOnlyPage 0.5))"
proof -
  have h1: "layerPresent (document (samplePage 120))"
    by (simp add: samplePage_def pageLoad_def layerPresent_def)
  have h2: "layerPresent (document (midOnlyPage 0.5))"
    by (simp add: midOnlyPage_def pageLoad_def layerPresent_def)
  have q: "pageYOffset (samplePage 120) = Finite 120" "pageYOffset (midOnlyPage 0.5) = Finite 0.5"
    by (simp_all add: samplePage_def midOnlyPage_def pageLoad_def pageYOffset_def)
  have p: "\<not> numLess (mathAbs (numSub (pageYOffset (samplePage 120)) (Finite 0))) (Finite 1)"
    "numLess (mathAbs (numSub (pageYOffset (midOnlyPage 0.5)) (Finite 0))) (Finite 1)"
    using q by simp_all
  have m: "numMul (Finite 120) (toDouble (- 0.2)) = Finite (- 24)"
    "numMul (Finite 120) (toDouble (- 0.5)) = Finite (- 60)"
    "numMul (Finite 120) (toDouble (- 0.8)) = Finite (- 96)"
    by (simp_all add: num_eval)
  from construction_subscribes_and_updates_past_threshold [OF h1] p(1)
  obtain c w' where a: "constructor (samplePage 120) = Inr (c, w')"
    "lastScrollY c = pageYOffset (samplePage 120)"
    "styleWrites w' = styleWrites (samplePage 120) @ layerWrites (elements c) (pageYOffset (samplePage 120))"
    "elements c = \<lparr>layerBack = querySelector ''layer-back'' (document (samplePage 120)),
                   layerMid = querySelector ''layer-mid'' (document (samplePage 120)),
                   layerFront = querySelector ''layer-front'' (document (samplePage 120))\<rparr>"
    "handleScroll_ref c = Bound (nextFn (samplePage 120)) MainJs HandleScroll"
    by blast
  have sl: "\<exists>c w'. constructor (samplePage 120) = Inr (c, w') \<and>
      scrollListeners w' = [(handleScroll_ref c, True)]"
    using m by (simp add: samplePage_def run_defs)
  with a(1) have "scrollListeners w' = [(handleScroll_ref c, True)]" by auto
  with a q m have first: "\<exists>c w'. constructor (samplePage 120) = Inr (c, w') \<and>
      scrollListeners w' = [(handleScroll_ref c, True)] \<and> lastScrollY c = Finite 120 \<and>
      styleWrites w' = [(1, translate3d (Finite 0) (Finite (- 24)) (Finite 0)),
                        (2, translate3d (Finite 0) (Finite (- 60)) (Finite 0)),
                        (3, translate3d (Finite 0) (Finite (- 96)) (Finite 0))]"
    by (intro exI [of _ c] exI [of _ w'])
       (simp add: samplePage_def pageLoad_def layerWrites_def layerWrite_def)
  from construction_subscribes_and_updates_past_threshold [OF h2] p(2)
  obtain c2 w2 where b: "constructor (midOnlyPage 0.5) = Inr (c2, w2)"
    "lastScrollY c2 = Finite 0" "styleWrites w2 = styleWrites (midOnlyPage 0.5)"
    "style_transform w2 = style_transform (midOnlyPage 0.5)"
    by blast
  have "\<exists>c w'. constructor (midOnlyPage 0.5) = Inr (c, w') \<and>
      scrollListeners w' = [(handleScroll_ref c, True)]"
    by (simp add: midOnlyPage_def run_defs)
  with b(1) have "scrollListeners w2 = [(handleScroll_ref c2, True)]" by auto
  with b have "\<exists>c w'. constructor (midOnlyPage 0.5) = Inr (c, w') \<and>
      scrollListeners w' = [(handleScroll_ref c, True)] \<and> lastScrollY c = Finite 0 \<and>
      styleWrites w' = [] \<and> style_transform w' = style_transform (midOnlyPage 0.5)"
    by (intro exI [of _ c2] exI [of _ w2]) (simp add: midOnlyPage_def pageLoad_def)
  with h1 h2 p q first show ?thesis by blast
qed

text \<open>
  C9. \<open>initApp\<close> constructs the controller exactly when the user does not prefer
  reduced motion and the window is wider than 768 pixels; otherwise the global stays null
  and the window is untouched.
\<close>

theorem parallax_gated_by_motion_and_width:
  "(prefersReducedMotion w \<or> innerWidth w \<le> 768 \<longrightarrow> initApp w = Inr (None, w)) \<and>
   (\<not> prefersReducedMotion w \<and> 768 < innerWidth w \<longrightarrow>
      (\<exists>c w'. constructor w = Inr (c, w') \<and> initApp w = Inr (Some c, w')))"
proof -
  obtain c w' where "constructor w = Inr (c, w')" using constructor_total by blast
  then show ?thesis by (auto simp: initApp_def isMobile_def)
qed

theorem parallax_gated_by_motion_and_width_witness:
  "prefersReducedMotion (plainPage 1280 True) \<and>
   initApp (plainPage 1280 True) = Inr (None, plainPage 1280 True) \<and>
   innerWidth (plainPage 768 False) \<le> 768 \<and>
   initApp (plainPage 768 False) = Inr (None, plainPage 768 False) \<and>
   \<not> prefersReducedMotion (samplePage 120) \<and> 768 < innerWidth (samplePage 120) \<and>
   (\<exists>c w'. constructor (samplePage 120) = Inr (c, w') \<and>
      initApp (samplePage 120) = Inr (Some c, w'))"
  using parallax_gated_by_motion_and_width [of "plainPage 1280 True"]
    parallax_gated_by_motion_and_width [of "plainPage 768 False"]
    parallax_gated_by_motion_and_width [of "samplePage 120"]
  by (simp add: plainPage_def samplePage_def pageLoad_def prefersReducedMotion_def)

text \<open>
  A controller constructed on a page without layers stays inert: whatever events follow,
  it is never subscribed, nothing is ever scheduled, no update runs and no style changes.
\<close>

theorem inert_controller_never_acts:
  assumes "\<not> layerPresent doc"
  shows "\<exists>c w. lifetime (pageLoad doc st y width rm) evs = Inr (c, w) \<and>
     scrollListeners w = [] \<and> rafQueue w = [] \<and> styleWrites w = [] \<and>
     updateRuns w = 0 \<and> style_transform w = st \<and> \<not> ticking c \<and> lastScrollY c = Finite 0"
proof -
  define c0 where "c0 = \<lparr>elements = \<lparr>layerBack = None, layerMid = None, layerFront = None\<rparr>,
           ticking = False, lastScrollY = Finite 0,
           handleScroll_ref = Unbound MainJs HandleScroll,
           updateParallax_ref = Unbound MainJs UpdateParallax,
           options = None\<rparr>"
  define w0 where "w0 = pageLoad doc st y width rm"
  from assms have ctor: "constructor w0 = Inr (c0, w0)"
    by (simp add: layerPresent_iff constructor_def init_def hasParallaxElements_def w0_def
        c0_def pageLoad_def)
  have n: "\<not> hasParallaxElements c0" by (simp add: hasParallaxElements_def c0_def)
  from constructor_coherent [of doc st y width rm] ctor have "coherent (c0, w0)"
    by (simp add: w0_def)
  from run_inert [OF this n, of evs] obtain w
    where r: "run evs (c0, w0) = Inr (c0, w)" "coherent (c0, w)"
      "updateRuns w = updateRuns w0" "style_transform w = style_transform w0"
    by auto
  from r(2) n have "scrollListeners w = []" "rafQueue w = []" "styleWrites w = []"
    by (auto simp: coherent_def c0_def)
  with ctor r show ?thesis
    by (intro exI [of _ c0] exI [of _ w]) (simp add: lifetime_def w0_def c0_def pageLoad_def)
qed

theorem inert_controller_never_acts_witness:
  "\<not> layerPresent [(0, [''hero'']), (1, [''faq-answer''])] \<and>
   (\<exists>c w. lifetime (plainPage 1280 False) [ScrollTo 500, ScrollEvent, Frame, Destroy] = Inr (c, w) \<and>
      scrollListeners w = [] \<and> rafQueue w = [] \<and> styleWrites w = [] \<and> updateRuns w = 0 \<and>
      pageYOffset w = Finite 500)"
proof -
  have h: "\<not> layerPresent [(0, [''hero'']), (1, [''faq-answer''])]"
    by (simp add: layerPresent_def)
  from inert_controller_never_acts [OF h, of Map.empty 0 1280 False
      "[ScrollTo 500, ScrollEvent, Frame, Destroy]"]
  obtain c w where
    l: "lifetime (plainPage 1280 False) [ScrollTo 500, ScrollEvent, Frame, Destroy] = Inr (c, w)"
    and q: "scrollListeners w = []" "rafQueue w = []" "styleWrites w = []" "updateRuns w = 0"
    unfolding plainPage_def by blast
  from l have "pageYOffset w = Finite 500"
    by (auto simp: plainPage_def run_defs)
  with h l q show ?thesis by blast
qed

section \<open>Teardown\<close>

text \<open>
  C8. \<open>destroy\<close> returns the controller as it was and a window that differs from
  the old one in its scroll listeners only: the entries whose callback is the controller's
  \<open>handleScroll\<close> are gone, every other listener is kept, in order, and none is
  added; the update routine still returns normally afterwards. In every reachable state it
  empties the listeners, leaves a scheduled request in the frame queue, and the next frame
  runs that request.
\<close>

theorem destroy_only_unsubscribes:
  "(\<exists>w'. destroy c0 w0 = Inr (c0, w') \<and> w' = w0\<lparr>scrollListeners := scrollListeners w'\<rparr> \<and>
      scrollListeners w' = filter (\<lambda>l. fst l \<noteq> handleScroll_ref c0) (scrollListeners w0) \<and>
      set (scrollListeners w') \<subseteq> set (scrollListeners w0) \<and>
      (\<forall>l \<in> set (scrollListeners w0).
         fst l \<noteq> handleScroll_ref c0 \<longrightarrow> l \<in> set (scrollListeners w')) \<and>
      (\<exists>c2 w2. updateParallax c0 w' = Inr (c2, w2))) \<and>
   (\<exists>c w w'. lifetime (pageLoad doc st y width rm) evs = Inr (c, w) \<and>
      destroy c w = Inr (c, w') \<and> w' = w\<lparr>scrollListeners := []\<rparr> \<and>
      (\<exists>c3 w3. runFrame c w' = Inr (c3, w3) \<and>
         updateRuns w3 = updateRuns w + length (rafQueue w) \<and> \<not> ticking c3))"
proof -
  have a: "\<exists>w'. destroy c0 w0 = Inr (c0, w') \<and> w' = w0\<lparr>scrollListeners := scrollListeners w'\<rparr> \<and>
      scrollListeners w' = filter (\<lambda>l. fst l \<noteq> handleScroll_ref c0) (scrollListeners w0) \<and>
      set (scrollListeners w') \<subseteq> set (scrollListeners w0) \<and>
      (\<forall>l \<in> set (scrollListeners w0).
         fst l \<noteq> handleScroll_ref c0 \<longrightarrow> l \<in> set (scrollListeners w')) \<and>
      (\<exists>c2 w2. updateParallax c0 w' = Inr (c2, w2))"
    using updateParallax_total by (auto simp: destroy_def removeEventListener_def)
  from lifetime_coherent [of doc st y width rm evs] obtain c w
    where l: "lifetime (pageLoad doc st y width rm) evs = Inr (c, w)" and co: "coherent (c, w)"
    by auto
  define w' where "w' = w\<lparr>scrollListeners := []\<rparr>"
  from destroy_step [OF co] have d: "destroy c w = Inr (c, w')" by (simp add: w'_def)
  from step_coherent [OF co, of Destroy] d have "coherent (c, w')" by simp
  from frame_step [OF this] obtain c3 w3 where "runFrame c w' = Inr (c3, w3)"
    "updateRuns w3 = updateRuns w' + length (rafQueue w')" "\<not> ticking c3"
    by auto
  with l d have "\<exists>c w w'. lifetime (pageLoad doc st y width rm) evs = Inr (c, w) \<and>
      destroy c w = Inr (c, w') \<and> w' = w\<lparr>scrollListeners := []\<rparr> \<and>
      (\<exists>c3 w3. runFrame c w' = Inr (c3, w3) \<and>
         updateRuns w3 = updateRuns w + length (rafQueue w) \<and> \<not> ticking c3)"
    by (intro exI [of _ c] exI [of _ w] exI [of _ w']) (auto simp: w'_def)
  with a show ?thesis by blast
qed

theorem destroy_only_unsubscribes_witness:
  "destroy (midOnlyController (Finite 100)) (sharedPage 300) =
     Inr (midOnlyController (Finite 100),
          (sharedPage 300)\<lparr>scrollListeners := [(Bound 7 ParallaxModule HandleScroll, False)]\<rparr>) \<and>
   scrollListeners (sharedPage 300) =
     [(Bound 7 ParallaxModule HandleScroll, False), (Bound 0 MainJs HandleScroll, True)] \<and>
   handleScroll_ref (midOnlyController (Finite 100)) = Bound 0 MainJs HandleScroll \<and>
   (\<exists>c2 w2. updateParallax (midOnlyController (Finite 100))
       ((sharedPage 300)\<lparr>scrollListeners := [(Bound 7 ParallaxModule HandleScroll, False)]\<rparr>)
       = Inr (c2, w2)) \<and>
   (\<exists>c w w'. lifetime (midOnlyPage 0) [ScrollTo 300, ScrollEvent] = Inr (c, w) \<and>
      scrollListeners w = [(handleScroll_ref c, True)] \<and> ticking c \<and> updateRuns w = 1 \<and>
      destroy c w = Inr (c, w') \<and> w' = w\<lparr>scrollListeners := []\<rparr> \<and>
      (\<exists>c3 w3. runFrame c w' = Inr (c3, w3) \<and> updateRuns w3 = 2 \<and> \<not> ticking c3))"
proof -
  let ?doc = "[(0, [''hero'']), (1, [''layer-mid''])]"
  let ?c0 = "midOnlyController (Finite 100)"
  let ?keep = "[(Bound 7 ParallaxModule HandleScroll, False)]"
  from destroy_only_unsubscribes [of ?c0 "sharedPage 300" ?doc Map.empty
      0 1280 False "[ScrollTo 300, ScrollEvent]"]
  obtain w1 c w w' where
    a: "destroy ?c0 (sharedPage 300) = Inr (?c0, w1)"
      "w1 = (sharedPage 300)\<lparr>scrollListeners := scrollListeners w1\<rparr>"
      "scrollListeners w1 = filter (\<lambda>l. fst l \<noteq> handleScroll_ref ?c0) (scrollListeners (sharedPage 300))"
      "\<exists>c2 w2. updateParallax ?c0 w1 = Inr (c2, w2)"
    and l: "lifetime (midOnlyPage 0) [ScrollTo 300, ScrollEvent] = Inr (c, w)"
    and d: "destroy c w = Inr (c, w')" "w' = w\<lparr>scrollListeners := []\<rparr>"
    and f: "\<exists>c3 w3. runFrame c w' = Inr (c3, w3) \<and>
         updateRuns w3 = updateRuns w + length (rafQueue w) \<and> \<not> ticking c3"
    unfolding midOnlyPage_def by blast
  have s: "scrollListeners (sharedPage 300) =
     [(Bound 7 ParallaxModule HandleScroll, False), (Bound 0 MainJs HandleScroll, True)]"
    "handleScroll_ref ?c0 = Bound 0 MainJs HandleScroll"
    by (simp_all add: sharedPage_def midOnlyController_def)
  with a(3) have "scrollListeners w1 = ?keep" by simp
  with a(2) have w1: "w1 = (sharedPage 300)\<lparr>scrollListeners := ?keep\<rparr>" by simp
  have "\<exists>c w. lifetime (midOnlyPage 0) [ScrollTo 300, ScrollEvent] = Inr (c, w) \<and>
      scrollListeners w = [(handleScroll_ref c, True)] \<and> ticking c \<and> updateRuns w = 1 \<and>
      length (rafQueue w) = 1"
    by (simp add: midOnlyPage_def run_defs)
  with l have b: "scrollListeners w = [(handleScroll_ref c, True)]" "ticking c" "updateRuns w = 1"
    "length (rafQueue w) = 1"
    by auto
  with f have "\<exists>c3 w3. runFrame c w' = Inr (c3, w3) \<and> updateRuns w3 = 2 \<and> \<not> ticking c3"
    by auto
  with l d b have "\<exists>c w w'. lifetime (midOnlyPage 0) [ScrollTo 300, ScrollEvent] = Inr (c, w) \<and>
      scrollListeners w = [(handleScroll_ref c, True)] \<and> ticking c \<and> updateRuns w = 1 \<and>
      destroy c w = Inr (c, w') \<and> w' = w\<lparr>scrollListeners := []\<rparr> \<and>
      (\<exists>c3 w3. runFrame c w' = Inr (c3, w3) \<and> updateRuns w3 = 2 \<and> \<not> ticking c3)"
    by (intro exI [of _ c] exI [of _ w] exI [of _ w']) simp
  with a(1) a(4) w1 s show ?thesis by simp
qed

text \<open>
  C6, for the module class. Its \<open>destroy\<close> hands \<open>removeEventListener\<close> a
  fresh \<open>bind\<close>, which is no registered listener: on the mid-only page, after
  \<open>destroy\<close> the handler of \<open>init\<close> is still subscribed, a scroll
  notification sets the pending flag and schedules the update, and the next frame runs
  it and writes the mid layer.
\<close>

theorem module_destroy_leaves_subscription:
  "lifetime_module Map.empty (midOnlyPage 0) [Destroy, ScrollTo 200, ScrollEvent] =
     Inr (\<lparr>elements = \<lparr>layerBack = None, layerMid = Some 1, layerFront = None\<rparr>,
           ticking = True, lastScrollY = Finite 0,
           handleScroll_ref = Unbound ParallaxModule HandleScroll,
           updateParallax_ref = Unbound ParallaxModule UpdateParallax,
           options = Some [''throttleDelay'' \<mapsto> 16]\<rparr>,
          \<lparr>document = [(0, [''hero'']), (1, [''layer-mid''])], scrollPosition = 200,
           innerWidth = 1280, reducedMotionQuery = False, style_transform = Map.empty,
           scrollListeners = [(Bound 0 ParallaxModule HandleScroll, True)],
           rafQueue = [Bound 2 ParallaxModule UpdateParallax],
           nextFn = 3, styleWrites = [], writtenAt = [], updateRuns = 1\<rparr>) \<and>
   lifetime_module Map.empty (midOnlyPage 0) [Destroy, ScrollTo 200, ScrollEvent, Frame] =
     Inr (\<lparr>elements = \<lparr>layerBack = None, layerMid = Some 1, layerFront = None\<rparr>,
           ticking = False, lastScrollY = Finite 200,
           handleScroll_ref = Unbound ParallaxModule HandleScroll,
           updateParallax_ref = Unbound ParallaxModule UpdateParallax,
           options = Some [''throttleDelay'' \<mapsto> 16]\<rparr>,
          \<lparr>document = [(0, [''hero'']), (1, [''layer-mid''])], scrollPosition = 200,
           innerWidth = 1280, reducedMotionQuery = False,
           style_transform = [1 \<mapsto> translate3d (Finite 0) (Finite (- 100)) (Finite 0)],
           scrollListeners = [(Bound 0 ParallaxModule HandleScroll, True)],
           rafQueue = [],
           nextFn = 3,
           styleWrites = [(1, translate3d (Finite 0) (Finite (- 100)) (Finite 0))],
           writtenAt = [Finite 200], updateRuns = 2\<rparr>)"
  by (simp add: midOnlyPage_def module_defs run_defs numeral_2_eq_2 numeral_3_eq_3)

text \<open>
  The inline class stores the bound handler and removes that very object: once
  \<open>destroy\<close> has run, the window has no scroll listener whatever follows, and a
  scroll notification changes nothing.
\<close>

theorem inline_teardown_stops_delivery:
  "\<exists>c w. lifetime (pageLoad doc st y width rm) (evs @ Destroy # evs') = Inr (c, w) \<and>
     scrollListeners w = [] \<and> step ScrollEvent (c, w) = Inr (c, w)"
proof -
  from lifetime_coherent [of doc st y width rm evs] obtain c0 w0
    where l: "lifetime (pageLoad doc st y width rm) evs = Inr (c0, w0)" and co: "coherent (c0, w0)"
    by auto
  define w1 where "w1 = w0\<lparr>scrollListeners := []\<rparr>"
  from destroy_step [OF co] have d: "step Destroy (c0, w0) = Inr (c0, w1)" by (simp add: w1_def)
  with step_coherent [OF co, of Destroy] have "coherent (c0, w1)" by simp
  from run_unsubscribed [OF this, of evs'] obtain c w
    where r: "run evs' (c0, w1) = Inr (c, w)" "coherent (c, w)" "scrollListeners w = []"
    by (auto simp: w1_def)
  from l d r(1) have "lifetime (pageLoad doc st y width rm) (evs @ Destroy # evs') = Inr (c, w)"
    by (cases "constructor (pageLoad doc st y width rm)") (simp_all add: lifetime_def run_append)
  with r scroll_event_step [OF r(2)] show ?thesis by auto
qed

theorem inline_teardown_stops_delivery_witness:
  "\<exists>c w. lifetime (midOnlyPage 0)
       ([ScrollTo 50, ScrollEvent, Frame] @ Destroy # [ScrollTo 200, ScrollEvent, Frame])
       = Inr (c, w) \<and>
     scrollListeners w = [] \<and> step ScrollEvent (c, w) = Inr (c, w) \<and>
     \<not> ticking c \<and> lastScrollY c = Finite 50 \<and> updateRuns w = 2 \<and>
     styleWrites w = [(1, translate3d (Finite 0) (Finite (- 25)) (Finite 0))]"
proof -
  from inline_teardown_stops_delivery [of "[(0, [''hero'']), (1, [''layer-mid''])]" Map.empty
      0 1280 False "[ScrollTo 50, ScrollEvent, Frame]" "[ScrollTo 200, ScrollEvent, Frame]"]
  obtain c w where
    l: "lifetime (midOnlyPage 0)
       ([ScrollTo 50, ScrollEvent, Frame] @ Destroy # [ScrollTo 200, ScrollEvent, Frame])
       = Inr (c, w)"
    and q: "scrollListeners w = []" "step ScrollEvent (c, w) = Inr (c, w)"
    unfolding midOnlyPage_def by blast
  from l have "\<not> ticking c" "lastScrollY c = Finite 50" "updateRuns w = 2"
    "styleWrites w = [(1, translate3d (Finite 0) (Finite (- 25)) (Finite 0))]"
    by (auto simp: midOnlyPage_def run_defs)
  with l q show ?thesis by blast
qed

end
